theory Spec2Isabelle
  imports Main "HOL-Library.Finite_Map" "HOL-Library.Sublist"
begin

section \<open>The cloud-provider config observer\<close>

text \<open>
  A shallow embedding of \<^verbatim>\<open>observe_cloudprovider.go\<close> (package
  \<^verbatim>\<open>cloudprovider\<close> of the vendored library-go): the functions
  \<^verbatim>\<open>GetPlatformName\<close>, \<^verbatim>\<open>IsCloudProviderExternal\<close> and
  \<^verbatim>\<open>ObserveCloudProviderNames\<close>. Listers, the resource syncer and the
  external-provider evaluator are inputs; the event recorder and the sync requests are
  threaded through as explicit state; a Go panic is the value \<open>Panic\<close>.
\<close>

subsection \<open>Values, errors, events\<close>

text \<open>
  The observed configuration is a \<^verbatim>\<open>map[string]interface{}\<close> that holds JSON values
  (the only values the deep copies of the library accept). A map is a finite map; \<open>None\<close>
  at the top level is Go's nil map: reads on it find nothing, and the observer never writes
  to one.
\<close>

datatype json =
    JNull
  | JBool bool
  | JNumber int
  | JString string
  | JSlice "json list"
  | JMap "(string, json) fmap"

type_synonym config = "(string, json) fmap option"

definition entries :: "config \<Rightarrow> (string, json) fmap" where
  "entries obj = (case obj of None \<Rightarrow> fmempty | Some m \<Rightarrow> m)"

text \<open>
  Errors as values. \<open>StatusNotFound\<close> is the API "not found" status error, the only one
  that \<^verbatim>\<open>errors.IsNotFound\<close> recognises; \<open>Errorf\<close> is an error wrapped by
  \<^verbatim>\<open>fmt.Errorf("...: %v", err)\<close>, which is no longer a status error; \<open>NotAMap\<close> and
  \<open>AccessorError\<close> are the errors of the writes and reads at key paths.
\<close>

datatype error =
    StatusNotFound string
  | StatusOther string
  | Errorf string error
  | NotAMap "string list"
  | AccessorError "string list"

fun IsNotFound :: "error \<Rightarrow> bool" where
  "IsNotFound (StatusNotFound _) = True"
| "IsNotFound _ = False"

text \<open>
  An event is kept as the call that recorded it: kind, reason, format string, arguments. The
  recorder is the list of the events recorded so far.
\<close>

datatype arg = ArgString string | ArgError error

datatype event =
    Warningf string string "arg list"
  | Eventf string string "arg list"

text \<open>What a call does: it panics or it returns.\<close>

datatype 'a result = Panic | Returned 'a

text \<open>
  The constant \<^verbatim>\<open>configv1.GroupName\<close> is declared in the vendored API package, not
  in the excerpt. It only appears inside event messages, and no statement below depends on
  its value.
\<close>

definition GroupName :: string where
  "GroupName = ''config.openshift.io''"

subsection \<open>The unstructured helpers\<close>

text \<open>
  Modelled from the spec: \<^verbatim>\<open>unstructured.NestedFieldNoCopy\<close>, the read at a key
  path of the "nested key-path-addressable map", is not part of the excerpt. Following the
  library, the read walks the path through nested maps; a missing key or a nil value on the
  way is "not found", and any other value on the way that is not a map is an error.
\<close>

datatype lookup = Found json | NotFound | LookupError error

fun NestedFieldNoCopy :: "json \<Rightarrow> string list \<Rightarrow> lookup" where
  "NestedFieldNoCopy val [] = Found val"
| "NestedFieldNoCopy val (field # fields) =
     (case val of
        JNull \<Rightarrow> NotFound
      | JMap m \<Rightarrow>
          (case fmlookup m field of
             None \<Rightarrow> NotFound
           | Some v \<Rightarrow> NestedFieldNoCopy v fields)
      | _ \<Rightarrow> LookupError (AccessorError (field # fields)))"

text \<open>
  Modelled from the spec: \<^verbatim>\<open>unstructured.SetNestedField\<close>, the write "into output
  at a caller-supplied key path", is not part of the excerpt. Following the library, the
  write walks all fields but the last, descending into maps, creating a map for a missing key
  and failing on any other value (nil included); it then stores the value under the last
  field. The library takes all fields but the last with \<^verbatim>\<open>fields[:len(fields)-1]\<close>,
  which is out of range for an empty path: that is the \<open>Panic\<close>. The Go code updates the
  map in place and returns the error; here the updated map is returned, and a failed write
  has changed nothing (no map is created before the walk fails). Values are immutable here,
  so the deep copies of the library are the identity.
\<close>

fun setNestedFieldNoCopy ::
  "(string, json) fmap \<Rightarrow> json \<Rightarrow> string list \<Rightarrow> (error + (string, json) fmap) result" where
  "setNestedFieldNoCopy obj val [] = Panic"
| "setNestedFieldNoCopy obj val [field] = Returned (Inr (fmupd field val obj))"
| "setNestedFieldNoCopy obj val (field # f # fields) =
     (case fmlookup obj field of
        Some (JMap valMap) \<Rightarrow>
          (case setNestedFieldNoCopy valMap val (f # fields) of
             Returned (Inr valMap') \<Rightarrow> Returned (Inr (fmupd field (JMap valMap') obj))
           | other \<Rightarrow> other)
      | Some _ \<Rightarrow> Returned (Inl (NotAMap [field]))
      | None \<Rightarrow>
          (case setNestedFieldNoCopy fmempty val (f # fields) of
             Returned (Inr newVal) \<Rightarrow> Returned (Inr (fmupd field (JMap newVal) obj))
           | other \<Rightarrow> other))"

text \<open>
  Modelled from the spec: \<^verbatim>\<open>unstructured.SetNestedStringSlice\<close> is not part of the
  excerpt. The strings become a slice of values, which is written at the path.
\<close>

definition SetNestedStringSlice ::
  "(string, json) fmap \<Rightarrow> string list \<Rightarrow> string list \<Rightarrow> (error + (string, json) fmap) result" where
  "SetNestedStringSlice obj val fields = setNestedFieldNoCopy obj (JSlice (map JString val)) fields"

text \<open>
  Modelled from the spec: the loop of \<^verbatim>\<open>unstructured.NestedStringSlice\<close> over the
  slice it has read. Every element must be a string.
\<close>

fun strings_of :: "json list \<Rightarrow> string list option" where
  "strings_of [] = Some []"
| "strings_of (JString s # vs) =
     (case strings_of vs of None \<Rightarrow> None | Some ss \<Rightarrow> Some (s # ss))"
| "strings_of (_ # vs) = None"

text \<open>
  Modelled from the spec: \<^verbatim>\<open>unstructured.NestedStringSlice\<close> is not part of the
  excerpt. It returns the slice of strings read at the path, whether it was found, and the
  read error; a value that is not a slice of strings is an error. A nil slice is \<open>[]\<close>.
\<close>

definition NestedStringSlice :: "config \<Rightarrow> string list \<Rightarrow> string list \<times> bool \<times> error option" where
  "NestedStringSlice obj fields =
     (case NestedFieldNoCopy (JMap (entries obj)) fields of
        NotFound \<Rightarrow> ([], False, None)
      | LookupError err \<Rightarrow> ([], False, Some err)
      | Found (JSlice m) \<Rightarrow>
          (case strings_of m of
             Some strSlice \<Rightarrow> (strSlice, True, None)
           | None \<Rightarrow> ([], False, Some (AccessorError fields)))
      | Found _ \<Rightarrow> ([], False, Some (AccessorError fields)))"

subsection \<open>Pruning\<close>

text \<open>
  Modelled from the spec: the loop of \<^verbatim>\<open>configobserver.Pruned\<close> over the key
  paths. Following the library, a fresh map receives, path by path in the order given, a copy
  of the value found at that path; a path that is not found, cannot be read or cannot be
  written is dropped.
\<close>

fun Pruned_loop ::
  "(string, json) fmap \<Rightarrow> string list list \<Rightarrow> (string, json) fmap \<Rightarrow> (string, json) fmap result" where
  "Pruned_loop obj [] ret = Returned ret"
| "Pruned_loop obj (p # pths) ret =
     (case NestedFieldNoCopy (JMap obj) p of
        Found x \<Rightarrow>
          (case setNestedFieldNoCopy ret x p of
             Panic \<Rightarrow> Panic
           | Returned (Inl err) \<Rightarrow> Pruned_loop obj pths ret
           | Returned (Inr ret') \<Rightarrow> Pruned_loop obj pths ret')
      | _ \<Rightarrow> Pruned_loop obj pths ret)"

text \<open>
  Modelled from the spec: \<^verbatim>\<open>configobserver.Pruned\<close> ("the result is pruned to only
  the two caller-supplied key paths") is not part of the excerpt. A nil map or an empty list
  of paths returns the input; otherwise the loop fills a fresh map.
\<close>

definition Pruned :: "config \<Rightarrow> string list list \<Rightarrow> config result" where
  "Pruned obj pths =
     (case obj of
        None \<Rightarrow> Returned None
      | Some m \<Rightarrow>
          if pths = [] then Returned (Some m)
          else (case Pruned_loop m pths fmempty of
                  Panic \<Rightarrow> Panic
                | Returned ret \<Rightarrow> Returned (Some ret)))"

subsection \<open>Platform types and cluster resources\<close>

text \<open>
  \<^verbatim>\<open>configv1.PlatformType\<close> is a string type whose constants are declared in the
  vendored API package. The switch of \<^verbatim>\<open>GetPlatformName\<close> names the empty string
  and twelve constants; Go rejects duplicate constants in a switch, so these thirteen values
  are pairwise distinct, and every other string is \<open>UnrecognizedPlatformType\<close>.
\<close>

datatype PlatformType =
    EmptyPlatformType
  | AWSPlatformType
  | AzurePlatformType
  | VSpherePlatformType
  | BareMetalPlatformType
  | GCPPlatformType
  | LibvirtPlatformType
  | OpenStackPlatformType
  | IBMCloudPlatformType
  | NonePlatformType
  | OvirtPlatformType
  | KubevirtPlatformType
  | AlibabaCloudPlatformType
  | UnrecognizedPlatformType

text \<open>
  The fields of the infrastructure object that the observer reads:
  \<^verbatim>\<open>Spec.CloudConfig.Name\<close>, \<^verbatim>\<open>Spec.CloudConfig.Key\<close>,
  \<^verbatim>\<open>Status.Platform\<close> and \<^verbatim>\<open>Status.PlatformStatus\<close> (opaque here).
\<close>

record 'ps Infrastructure =
  Spec_CloudConfig_Name :: string
  Spec_CloudConfig_Key :: string
  Status_Platform :: PlatformType
  Status_PlatformStatus :: 'ps

text \<open>
  The type \<^verbatim>\<open>resourcesynccontroller.ResourceLocation\<close> is declared outside the
  excerpt. The observer sets its namespace and its name; the empty location is the one where
  both are empty.
\<close>

record ResourceLocation =
  Namespace :: string
  Name :: string

text \<open>
  The interface \<^verbatim>\<open>InfrastructureLister\<close>: each lister answers with an error or
  the object (a lookup never yields a nil object without an error). The config-map lookup
  is kept as its error only, since the observer discards the object; the syncer answers
  with its error, and the request itself is logged in the observation.
\<close>

record ('ps, 'fg) InfrastructureLister =
  InfrastructureLister_Get :: "string \<Rightarrow> error + 'ps Infrastructure"
  FeatureGateLister_Get :: "string \<Rightarrow> error + 'fg"
  ConfigMapLister_Get :: "string \<Rightarrow> string \<Rightarrow> error option"
  ResourceSyncer_SyncConfigMap :: "ResourceLocation \<Rightarrow> ResourceLocation \<Rightarrow> error option"

text \<open>
  The generic \<^verbatim>\<open>configobserver.Listers\<close> value handed to the observer either
  implements \<^verbatim>\<open>InfrastructureLister\<close> or does not.
\<close>

datatype ('ps, 'fg) Listers =
    OtherListers
  | InfraListers "('ps, 'fg) InfrastructureLister"

record cloudProviderObserver =
  targetNamespaceName :: string
  cloudProviderNamePath :: "string list"
  cloudProviderConfigPath :: "string list"

text \<open>
  The return statements of \<^verbatim>\<open>ObserveCloudProviderNames\<close>, in source order:
  infrastructure not found (line 65), infrastructure lookup error (68), external-provider
  check error (74), managed config-map lookup error (100), sync failure (124), no source
  config-map (128), config-path write failure (135), and the final return (148).
\<close>

datatype exit =
    InfrastructureNotFound
  | InfrastructureError
  | ExternalCheckError
  | ConfigMapError
  | SyncError
  | NoSourceConfigMap
  | ConfigPathError
  | Observed

text \<open>
  What one call hands back: the two results, the recorder after the call, the sync requests
  issued, and the return statement that was taken.
\<close>

record observation =
  ret :: config
  errs :: "error list"
  recorded :: "event list"
  synced :: "(ResourceLocation \<times> ResourceLocation) list"
  exit :: exit

subsection \<open>Constants\<close>

definition cloudProviderConfFilePath :: string where
  "cloudProviderConfFilePath = ''/etc/kubernetes/static-pod-resources/configmaps/cloud-config/''"

definition configNamespace :: string where
  "configNamespace = ''openshift-config''"

definition machineSpecifiedConfigNamespace :: string where
  "machineSpecifiedConfigNamespace = ''openshift-config-managed''"

definition machineSpecifiedConfig :: string where
  "machineSpecifiedConfig = ''kube-cloud-config''"

definition validCloudProviders :: "string set" where
  "validCloudProviders = {''aws'', ''azure'', ''gce'', ''openstack'', ''vsphere''}"

subsection \<open>GetPlatformName\<close>

fun GetPlatformName :: "PlatformType \<Rightarrow> event list \<Rightarrow> string \<times> event list" where
  "GetPlatformName EmptyPlatformType recorder =
     ('''', recorder @ [Warningf ''ObserveCloudProvidersFailed''
        ''Required status.platform field is not set in infrastructures.%s/cluster''
        [ArgString GroupName]])"
| "GetPlatformName AWSPlatformType recorder = (''aws'', recorder)"
| "GetPlatformName AzurePlatformType recorder = (''azure'', recorder)"
| "GetPlatformName VSpherePlatformType recorder = (''vsphere'', recorder)"
| "GetPlatformName BareMetalPlatformType recorder = ('''', recorder)"
| "GetPlatformName GCPPlatformType recorder = (''gce'', recorder)"
| "GetPlatformName LibvirtPlatformType recorder = ('''', recorder)"
| "GetPlatformName OpenStackPlatformType recorder = (''openstack'', recorder)"
| "GetPlatformName IBMCloudPlatformType recorder = ('''', recorder)"
| "GetPlatformName NonePlatformType recorder = ('''', recorder)"
| "GetPlatformName OvirtPlatformType recorder = ('''', recorder)"
| "GetPlatformName KubevirtPlatformType recorder = ('''', recorder)"
| "GetPlatformName AlibabaCloudPlatformType recorder = ('''', recorder)"
| "GetPlatformName UnrecognizedPlatformType recorder =
     ('''', recorder @ [Warningf ''ObserveCloudProvidersFailed''
        (''No recognized cloud provider platform found in infrastructures.'' @ GroupName
           @ ''/cluster.status.platform'') []])"

subsection \<open>IsCloudProviderExternal\<close>

text \<open>
  The evaluator \<^verbatim>\<open>cloudprovider.IsCloudProviderExternal\<close> of library-go is not
  part of the excerpt; it is the parameter \<open>ext\<close>.
\<close>

definition IsCloudProviderExternal ::
  "('ps \<Rightarrow> 'fg \<Rightarrow> error + bool) \<Rightarrow> ('ps, 'fg) InfrastructureLister \<Rightarrow> 'ps \<Rightarrow> error + bool" where
  "IsCloudProviderExternal ext listers platform =
     (case FeatureGateLister_Get listers ''cluster'' of
        Inl err \<Rightarrow>
          if IsNotFound err then Inr False
          else Inl (Errorf ''could not fetch featuregate: %v'' err)
      | Inr featureGate \<Rightarrow>
          (case ext platform featureGate of
             Inl err \<Rightarrow>
               Inl (Errorf ''could not determine if cloud provider is external from featuregate: %v'' err)
           | Inr external \<Rightarrow> Inr external))"

subsection \<open>ObserveCloudProviderNames\<close>

text \<open>
  Lines 89 to 101, the choice of the source config-map: the managed config-map when its
  lookup succeeds, the reference of the infrastructure spec when the lookup says "not
  found", and the error otherwise. The triple is (name, namespace, key).
\<close>

definition sourceCloudConfig ::
  "('ps, 'fg) InfrastructureLister \<Rightarrow> 'ps Infrastructure \<Rightarrow> error + (string \<times> string \<times> string)" where
  "sourceCloudConfig listers infrastructure =
     (case ConfigMapLister_Get listers machineSpecifiedConfigNamespace machineSpecifiedConfig of
        None \<Rightarrow> Inr (machineSpecifiedConfig, machineSpecifiedConfigNamespace, ''cloud.conf'')
      | Some err \<Rightarrow>
          if \<not> IsNotFound err then Inl err
          else Inr (Spec_CloudConfig_Name infrastructure, configNamespace,
                    Spec_CloudConfig_Key infrastructure))"

text \<open>
  Lines 79 to 87, the provider name written into the fresh configuration: the result is the
  configuration after the write and the errors collected so far; a failed write leaves the
  configuration as it was.
\<close>

definition observeProviderName ::
  "cloudProviderObserver \<Rightarrow> bool \<Rightarrow> string \<Rightarrow> ((string, json) fmap \<times> error list) result" where
  "observeProviderName c external cloudProvider =
     (let observedConfig = fmempty in
      if external then
        (case SetNestedStringSlice observedConfig [''external''] (cloudProviderNamePath c) of
           Panic \<Rightarrow> Panic
         | Returned (Inl err) \<Rightarrow> Returned (observedConfig, [err])
         | Returned (Inr observedConfig') \<Rightarrow> Returned (observedConfig', []))
      else if length cloudProvider > 0 then
        (case SetNestedStringSlice observedConfig [cloudProvider] (cloudProviderNamePath c) of
           Panic \<Rightarrow> Panic
         | Returned (Inl err) \<Rightarrow> Returned (observedConfig, [err])
         | Returned (Inr observedConfig') \<Rightarrow> Returned (observedConfig', []))
      else Returned (observedConfig, []))"

text \<open>
  The body of the function, lines 58 to 148, before the deferred pruning. Every early return
  of the source is a branch that ends here; \<open>recorder0\<close> is the recorder handed in and
  \<open>recorder1\<close> the one after \<^verbatim>\<open>GetPlatformName\<close>; the variables that the source
  assigns twice carry a \<open>0\<close> before the second assignment. The type assertion of line 58
  panics on a listers value that does not implement the interface.
\<close>

definition observeBody ::
  "cloudProviderObserver \<Rightarrow> ('ps \<Rightarrow> 'fg \<Rightarrow> error + bool) \<Rightarrow> ('ps, 'fg) Listers \<Rightarrow> event list
     \<Rightarrow> config \<Rightarrow> observation result" where
  "observeBody c ext genericListers recorder0 existingConfig =
     (case genericListers of
        OtherListers \<Rightarrow> Panic
      | InfraListers listers \<Rightarrow>
     (case InfrastructureLister_Get listers ''cluster'' of
        Inl err \<Rightarrow>
          if IsNotFound err then
            Returned \<lparr>ret = Some fmempty, errs = [],
              recorded = recorder0 @ [Warningf ''ObserveCloudProviderNames''
                ''Required infrastructures.%s/cluster not found'' [ArgString GroupName]],
              synced = [], exit = InfrastructureNotFound\<rparr>
          else Returned \<lparr>ret = existingConfig, errs = [err], recorded = recorder0, synced = [],
            exit = InfrastructureError\<rparr>
      | Inr infrastructure \<Rightarrow>
     (case IsCloudProviderExternal ext listers (Status_PlatformStatus infrastructure) of
        Inl err \<Rightarrow>
          Returned \<lparr>ret = existingConfig, errs = [err],
            recorded = recorder0 @ [Warningf ''ObserveCloudProviderNames''
              ''Could not determine external cloud provider state: %v'' [ArgError err]],
            synced = [], exit = ExternalCheckError\<rparr>
      | Inr external \<Rightarrow>
     (case GetPlatformName (Status_Platform infrastructure) recorder0 of
        (cloudProvider, recorder1) \<Rightarrow>
     (case observeProviderName c external cloudProvider of
        Panic \<Rightarrow> Panic
      | Returned (observedConfig, errs1) \<Rightarrow>
     (case sourceCloudConfig listers infrastructure of
        Inl err \<Rightarrow>
          Returned \<lparr>ret = existingConfig, errs = errs1 @ [err], recorded = recorder1, synced = [],
            exit = ConfigMapError\<rparr>
      | Inr (sourceCloudConfigMap0, sourceCloudConfigNamespace, sourceCloudConfigKey) \<Rightarrow>
     (let sourceLocation0 = \<lparr>Namespace = sourceCloudConfigNamespace, Name = sourceCloudConfigMap0\<rparr>;
          sourceCloudConfigMap =
            (if cloudProvider \<notin> validCloudProviders then '''' else sourceCloudConfigMap0);
          sourceLocation =
            (if length sourceCloudConfigMap = 0 then \<lparr>Namespace = '''', Name = ''''\<rparr>
             else sourceLocation0);
          destination = \<lparr>Namespace = targetNamespaceName c, Name = ''cloud-config''\<rparr>;
          requests = [(destination, sourceLocation)]
      in
     (case ResourceSyncer_SyncConfigMap listers destination sourceLocation of
        Some err \<Rightarrow>
          Returned \<lparr>ret = existingConfig, errs = errs1 @ [err], recorded = recorder1,
            synced = requests, exit = SyncError\<rparr>
      | None \<Rightarrow>
          if length sourceCloudConfigMap = 0 then
            Returned \<lparr>ret = Some observedConfig, errs = errs1, recorded = recorder1,
              synced = requests, exit = NoSourceConfigMap\<rparr>
          else
     (let staticCloudConfFile = cloudProviderConfFilePath @ sourceCloudConfigKey in
     (case SetNestedStringSlice observedConfig [staticCloudConfFile] (cloudProviderConfigPath c) of
        Panic \<Rightarrow> Panic
      | Returned (Inl err) \<Rightarrow>
          Returned \<lparr>ret = existingConfig, errs = errs1 @ [err],
            recorded = recorder1 @ [Warningf ''ObserveCloudProviderNames''
              ''Failed setting cloud-config : %v'' [ArgError err]],
            synced = requests, exit = ConfigPathError\<rparr>
      | Returned (Inr observedConfig') \<Rightarrow>
     (case NestedStringSlice existingConfig (cloudProviderConfigPath c) of
        (existingCloudConfig, _, err) \<Rightarrow>
          Returned \<lparr>ret = Some observedConfig',
            errs = (case err of Some e \<Rightarrow> errs1 @ [e] | None \<Rightarrow> errs1),
            recorded =
              (if existingCloudConfig \<noteq> [staticCloudConfFile] then
                 recorder1 @ [Eventf ''ObserveCloudProviderNamesChanges''
                   ''CloudProvider config file changed to %s'' [ArgString staticCloudConfFile]]
               else recorder1),
            synced = requests, exit = Observed\<rparr>)))))))))))"

text \<open>
  The function with its deferred step: whatever the body returns is pruned to the config
  path and the name path, in this order. A panic of the body stays a panic.
\<close>

definition ObserveCloudProviderNames ::
  "cloudProviderObserver \<Rightarrow> ('ps \<Rightarrow> 'fg \<Rightarrow> error + bool) \<Rightarrow> ('ps, 'fg) Listers \<Rightarrow> event list
     \<Rightarrow> config \<Rightarrow> observation result" where
  "ObserveCloudProviderNames c ext genericListers recorder0 existingConfig =
     (case observeBody c ext genericListers recorder0 existingConfig of
        Panic \<Rightarrow> Panic
      | Returned ob \<Rightarrow>
          (case Pruned (ret ob) [cloudProviderConfigPath c, cloudProviderNamePath c] of
             Panic \<Rightarrow> Panic
           | Returned pruned \<Rightarrow> Returned (ob\<lparr>ret := pruned\<rparr>)))"

subsection \<open>Notions used in the statements\<close>

text \<open>The value a read finds at a path, if any.\<close>

definition found :: "json \<Rightarrow> string list \<Rightarrow> json option" where
  "found val p = (case NestedFieldNoCopy val p of Found x \<Rightarrow> Some x | _ \<Rightarrow> None)"

text \<open>The map that holds one value at one path and nothing else.\<close>

fun single :: "string list \<Rightarrow> json \<Rightarrow> (string, json) fmap" where
  "single [] v = fmempty"
| "single [field] v = fmupd field v fmempty"
| "single (field # f # rest) v = fmupd field (JMap (single (f # rest) v)) fmempty"

text \<open>The hard-error returns: those that hand back the prior configuration.\<close>

definition hardErrorExits :: "exit set" where
  "hardErrorExits = {InfrastructureError, ExternalCheckError, ConfigMapError, SyncError, ConfigPathError}"

text \<open>The "config file changed" notifications among the recorded events.\<close>

fun isChangedEvent :: "event \<Rightarrow> bool" where
  "isChangedEvent (Eventf reason _ _) = (reason = ''ObserveCloudProviderNamesChanges'')"
| "isChangedEvent (Warningf _ _ _) = False"

definition changedEvents :: "event list \<Rightarrow> event list" where
  "changedEvents evs = filter isChangedEvent evs"

text \<open>
  The provider names a configuration holds at a path, and the state the invariant of the
  data model excludes: the marker of an external provider together with the name of an
  in-tree provider.
\<close>

definition providerNames :: "config \<Rightarrow> string list \<Rightarrow> string list" where
  "providerNames cfg path = fst (NestedStringSlice cfg path)"

definition inTreeProviders :: "string set" where
  "inTreeProviders = {''aws'', ''azure'', ''vsphere'', ''gce'', ''openstack''}"

definition externalAndInTree :: "config \<Rightarrow> string list \<Rightarrow> bool" where
  "externalAndInTree cfg path =
     (''external'' \<in> set (providerNames cfg path)
      \<and> set (providerNames cfg path) \<inter> inTreeProviders \<noteq> {})"

text \<open>
  The hard errors in the words of the specification: an infrastructure lookup error other than
  not-found, an external-provider check error, a managed config-map lookup error other than
  not-found, a sync request that failed, or a failed write of the config path (the return
  of line 135).
\<close>

definition hardError ::
  "('ps \<Rightarrow> 'fg \<Rightarrow> error + bool) \<Rightarrow> ('ps, 'fg) InfrastructureLister \<Rightarrow> observation \<Rightarrow> bool" where
  "hardError ext listers ob =
     (case InfrastructureLister_Get listers ''cluster'' of
        Inl err \<Rightarrow> \<not> IsNotFound err
      | Inr infrastructure \<Rightarrow>
          (case IsCloudProviderExternal ext listers (Status_PlatformStatus infrastructure) of
             Inl err \<Rightarrow> True
           | Inr external \<Rightarrow>
               (case ConfigMapLister_Get listers machineSpecifiedConfigNamespace
                       machineSpecifiedConfig of
                  None \<Rightarrow> False
                | Some err \<Rightarrow> \<not> IsNotFound err)
               \<or> list_ex (\<lambda>(destination, source).
                      ResourceSyncer_SyncConfigMap listers destination source \<noteq> None) (synced ob)
               \<or> exit ob = ConfigPathError))"

text \<open>A key path lies on a configured path or beneath it.\<close>

definition onKeyPath :: "string list \<Rightarrow> string list \<Rightarrow> bool" where
  "onKeyPath p s = (prefix s p \<or> prefix p s)"

text \<open>Whether the slice found at a path, if any, has exactly one element.\<close>

definition singleSliceAt :: "string list \<Rightarrow> (string, json) fmap \<Rightarrow> bool" where
  "singleSliceAt p m = (case found (JMap m) p of Some (JSlice zs) \<Rightarrow> length zs = 1 | _ \<Rightarrow> True)"

subsection \<open>Example clusters\<close>

text \<open>
  The observer as the kube-apiserver operator configures it, and listers that answer every
  request with a fixed result.
\<close>

definition exObserver :: cloudProviderObserver where
  "exObserver = \<lparr>targetNamespaceName = ''openshift-kube-apiserver'',
     cloudProviderNamePath = [''apiServerArguments'', ''cloud-provider''],
     cloudProviderConfigPath = [''apiServerArguments'', ''cloud-config'']\<rparr>"

definition exInfrastructure :: "PlatformType \<Rightarrow> string \<Rightarrow> string \<Rightarrow> unit Infrastructure" where
  "exInfrastructure platform name key =
     \<lparr>Spec_CloudConfig_Name = name, Spec_CloudConfig_Key = key,
      Status_Platform = platform, Status_PlatformStatus = ()\<rparr>"

definition exListers ::
  "error + unit Infrastructure \<Rightarrow> error + unit \<Rightarrow> error option \<Rightarrow> error option
     \<Rightarrow> (unit, unit) InfrastructureLister" where
  "exListers infrastructure featureGate managed sync =
     \<lparr>InfrastructureLister_Get = (\<lambda>_. infrastructure),
      FeatureGateLister_Get = (\<lambda>_. featureGate),
      ConfigMapLister_Get = (\<lambda>_ _. managed),
      ResourceSyncer_SyncConfigMap = (\<lambda>_ _. sync)\<rparr>"

definition exExternal :: "bool \<Rightarrow> unit \<Rightarrow> unit \<Rightarrow> error + bool" where
  "exExternal b platform featureGate = Inr b"

text \<open>
  A cluster of a given platform that names the config-map \<open>cloud-provider-config\<close> with key
  \<open>config\<close> in its infrastructure spec, has a feature gate, answers the lookup of the
  managed config-map as given, and accepts every sync request.
\<close>

definition exCluster :: "PlatformType \<Rightarrow> error option \<Rightarrow> (unit, unit) InfrastructureLister" where
  "exCluster platform managed =
     exListers (Inr (exInfrastructure platform ''cloud-provider-config'' ''config''))
       (Inr ()) managed None"

text \<open>A prior configuration with a key that belongs to another observer.\<close>

definition exPrior :: config where
  "exPrior = Some (fmupd ''servingInfo'' (JString ''0.0.0.0:6443'') fmempty)"

section \<open>Reading and writing at key paths\<close>

text \<open>
  A write that stores the value a read already finds changes nothing; a write into the
  empty map builds the map that holds the one value.
\<close>

lemma fmupd_same: "fmlookup m k = Some v \<Longrightarrow> fmupd k v m = m"
  by (rule fmap_ext) auto

lemma fmupd_neq_fmempty [simp]: "fmupd k v m \<noteq> fmempty"
  by (metis fmempty_lookup fmupd_lookup option.distinct(1))

lemma set_not_panic: "p \<noteq> [] \<Longrightarrow> setNestedFieldNoCopy m v p \<noteq> Panic"
  by (induction m v p rule: setNestedFieldNoCopy.induct)
     (auto split: option.splits json.splits result.splits sum.splits)

lemma set_empty: "p \<noteq> [] \<Longrightarrow> setNestedFieldNoCopy fmempty v p = Returned (Inr (single p v))"
  by (induction p v rule: single.induct) auto

lemma found_Nil [simp]: "found val [] = Some val"
  by (simp add: found_def)

lemma found_Cons_map [simp]:
  "found (JMap m) (k # p) = (case fmlookup m k of None \<Rightarrow> None | Some v \<Rightarrow> found v p)"
  by (simp add: found_def split: option.splits)

lemma found_Cons_other:
  "found val (k # p) = Some z \<Longrightarrow> \<exists>m. val = JMap m"
  by (cases val) (auto simp: found_def)

lemma found_empty [simp]: "p \<noteq> [] \<Longrightarrow> found (JMap fmempty) p = None"
  by (cases p) simp_all

lemma found_nonmap:
  "found (JSlice zs) r = Some v \<Longrightarrow> r = []"
  by (cases r) (auto simp: found_def)

lemma found_single: "p \<noteq> [] \<Longrightarrow> found (JMap (single p v)) p = Some v"
  by (induction p v rule: single.induct) auto

lemma set_found: "setNestedFieldNoCopy m v p = Returned (Inr m') \<Longrightarrow> found (JMap m') p = Some v"
  by (induction m v p arbitrary: m' rule: setNestedFieldNoCopy.induct)
     (auto split: option.splits json.splits result.splits sum.splits)

lemma set_same:
  "q \<noteq> [] \<Longrightarrow> found (JMap m) q = Some y \<Longrightarrow> setNestedFieldNoCopy m y q = Returned (Inr m)"
proof (induction m y q rule: setNestedFieldNoCopy.induct)
  case (1 obj val)
  then show ?case by simp
next
  case (2 obj val field)
  then show ?case by (auto simp: fmupd_same split: option.splits)
next
  case (3 obj val field f rest)
  from "3.prems" obtain v where v: "fmlookup obj field = Some v" "found v (f # rest) = Some val"
    by (auto split: option.splits)
  then obtain m' where m': "v = JMap m'" using found_Cons_other by blast
  with 3 v have "setNestedFieldNoCopy m' val (f # rest) = Returned (Inr m')" by simp
  with v m' show ?case by (simp add: fmupd_same)
qed

text \<open>
  Writing a second value found in the same map into the map that holds the first: the write
  succeeds and both values are then found.
\<close>

lemma set_single_both:
  "p \<noteq> [] \<Longrightarrow> q \<noteq> [] \<Longrightarrow> found (JMap m) p = Some x \<Longrightarrow> found (JMap m) q = Some y \<Longrightarrow>
   \<exists>r. setNestedFieldNoCopy (single p x) y q = Returned (Inr r)
       \<and> found (JMap r) p = Some x \<and> found (JMap r) q = Some y"
proof (induction p arbitrary: q m)
  case Nil
  then show ?case by simp
next
  case (Cons a p')
  from Cons.prems(2) obtain b q' where q: "q = b # q'" by (cases q) auto
  from Cons.prems(3) obtain va where va: "fmlookup m a = Some va" "found va p' = Some x"
    by (auto split: option.splits)
  from Cons.prems(4) q obtain vb where vb: "fmlookup m b = Some vb" "found vb q' = Some y"
    by (auto split: option.splits)
  show ?case
  proof (cases "a = b")
    case False
    then show ?thesis
      using q found_single [of p' x] found_single [of q' y] set_empty [of q' y]
      by (cases p'; cases q') auto
  next
    case True
    with va vb have same: "vb = va" by simp
    show ?thesis
    proof (cases p')
      case Nil
      note pnil = this
      with va have xa: "x = va" by simp
      show ?thesis
      proof (cases q')
        case Nil
        with pnil q True xa vb same show ?thesis by simp
      next
        case (Cons c q'')
        with vb same xa obtain mx where mx: "x = JMap mx" using found_Cons_other by blast
        from vb same xa mx Cons have "setNestedFieldNoCopy mx y q' = Returned (Inr mx)"
          using set_same [of q' mx y] by simp
        then show ?thesis using pnil q True Cons mx vb same xa by simp
      qed
    next
      case (Cons d p'')
      note pcons = this
      with va obtain ma where ma: "va = JMap ma" using found_Cons_other by blast
      show ?thesis
      proof (cases q')
        case Nil
        with vb same have "y = va" by simp
        then show ?thesis using pcons q True Nil ma va by simp
      next
        case (Cons c q'')
        have "\<exists>r. setNestedFieldNoCopy (single p' x) y q' = Returned (Inr r)
                \<and> found (JMap r) p' = Some x \<and> found (JMap r) q' = Some y"
          using Cons.IH [of q' ma] pcons Cons va vb same ma by simp
        then obtain r where r: "setNestedFieldNoCopy (single p' x) y q' = Returned (Inr r)"
          "found (JMap r) p' = Some x" "found (JMap r) q' = Some y" by blast
        then show ?thesis using pcons q True Cons by simp
      qed
    qed
  qed
qed

text \<open>
  The same for two key paths that do not lie on one another, whatever the values.
\<close>

lemma set_single_apart:
  "\<not> prefix p q \<Longrightarrow> \<not> prefix q p \<Longrightarrow>
   \<exists>r. setNestedFieldNoCopy (single p x) y q = Returned (Inr r)
       \<and> found (JMap r) p = Some x \<and> found (JMap r) q = Some y"
proof (induction p arbitrary: q)
  case Nil
  then show ?case by simp
next
  case (Cons a p')
  from Cons.prems(2) obtain b q' where q: "q = b # q'" by (cases q) auto
  show ?case
  proof (cases "a = b")
    case False
    then show ?thesis
      using q found_single [of p' x] found_single [of q' y] set_empty [of q' y]
      by (cases p'; cases q') auto
  next
    case True
    with Cons.prems q have apart: "\<not> prefix p' q'" "\<not> prefix q' p'" by auto
    then obtain d p'' c q'' where pq: "p' = d # p''" "q' = c # q''"
      by (cases p'; cases q') auto
    from Cons.IH [OF apart] obtain r where
      "setNestedFieldNoCopy (single p' x) y q' = Returned (Inr r)"
      "found (JMap r) p' = Some x" "found (JMap r) q' = Some y" by blast
    with q True pq show ?thesis by simp
  qed
qed

text \<open>
  A path found in the map that holds one value of \<open>m\<close> is found in \<open>m\<close> as well.
\<close>

lemma found_single_other:
  "p \<noteq> [] \<Longrightarrow> q \<noteq> [] \<Longrightarrow> found (JMap m) p = Some x \<Longrightarrow> found (JMap (single p x)) q = Some z \<Longrightarrow>
   found (JMap m) q \<noteq> None"
proof (induction p arbitrary: q m z)
  case Nil
  then show ?case by simp
next
  case (Cons a p')
  from Cons.prems(2) obtain b q' where q: "q = b # q'" by (cases q) auto
  from Cons.prems(3) obtain va where va: "fmlookup m a = Some va" "found va p' = Some x"
    by (auto split: option.splits)
  show ?case
  proof (cases p')
    case Nil
    then show ?thesis using Cons.prems(4) q va by (auto split: if_splits)
  next
    case (Cons d p'')
    note pcons = this
    with va obtain ma where ma: "va = JMap ma" using found_Cons_other by blast
    have ab: "a = b" using Cons.prems(4) q pcons by (auto split: if_splits)
    show ?thesis
    proof (cases q')
      case Nil
      then show ?thesis using q ab va by simp
    next
      case (Cons c q'')
      have "found (JMap (single p' x)) q' = Some z"
        using Cons.prems(4) q ab pcons by simp
      then have "found (JMap ma) q' \<noteq> None"
        using Cons.IH [of q' ma z] pcons Cons va ma by simp
      then show ?thesis using q ab va ma by simp
    qed
  qed
qed

text \<open>
  What a write can add: a key path that resolves after the write resolved before, or lies on
  the written path or beneath it; a slice found after the write was found before, or lies in
  the written value.
\<close>

lemma set_keys:
  "setNestedFieldNoCopy m v p = Returned (Inr m') \<Longrightarrow> s \<noteq> [] \<Longrightarrow> found (JMap m') s \<noteq> None \<Longrightarrow>
   found (JMap m) s \<noteq> None \<or> prefix s p \<or> prefix p s"
proof (induction m v p arbitrary: m' s rule: setNestedFieldNoCopy.induct)
  case (1 obj val)
  then show ?case by simp
next
  case (2 obj val field)
  then show ?case by (cases s) (auto split: if_splits option.splits)
next
  case (3 obj val field f rest)
  from "3.prems"(2) obtain k s' where s: "s = k # s'" by (cases s) auto
  show ?case
  proof (cases "k = field")
    case False
    with "3.prems" s show ?thesis
      by (auto split: option.splits json.splits result.splits sum.splits)
  next
    case True
    show ?thesis
    proof (cases s')
      case Nil
      with s True show ?thesis by simp
    next
      case (Cons k' s'')
      show ?thesis
      proof (cases "fmlookup obj field")
        case None
        with "3.prems"(1) obtain newVal where nv:
          "setNestedFieldNoCopy fmempty val (f # rest) = Returned (Inr newVal)"
          "m' = fmupd field (JMap newVal) obj"
          by (auto split: result.splits sum.splits)
        with "3.prems"(3) s True have "found (JMap newVal) s' \<noteq> None" by simp
        with "3.IH"(1) [OF None nv(1), of s'] Cons
        have "prefix s' (f # rest) \<or> prefix (f # rest) s'" by auto
        with s True show ?thesis by auto
      next
        case (Some a)
        with "3.prems"(1) obtain valMap valMap' where vm: "a = JMap valMap"
          "setNestedFieldNoCopy valMap val (f # rest) = Returned (Inr valMap')"
          "m' = fmupd field (JMap valMap') obj"
          by (auto split: json.splits result.splits sum.splits)
        with "3.prems"(3) s True have "found (JMap valMap') s' \<noteq> None" by simp
        with "3.IH"(2) [OF Some vm(1) vm(2), of s'] Cons
        have "found (JMap valMap) s' \<noteq> None \<or> prefix s' (f # rest) \<or> prefix (f # rest) s'" by auto
        with s True Some vm show ?thesis by auto
      qed
    qed
  qed
qed

lemma set_found_slice:
  "setNestedFieldNoCopy m v p = Returned (Inr m') \<Longrightarrow> q \<noteq> [] \<Longrightarrow>
   found (JMap m') q = Some (JSlice zs) \<Longrightarrow>
   found (JMap m) q = Some (JSlice zs) \<or> (\<exists>r. q = p @ r \<and> found v r = Some (JSlice zs))"
proof (induction m v p arbitrary: m' q rule: setNestedFieldNoCopy.induct)
  case (1 obj val)
  then show ?case by simp
next
  case (2 obj val field)
  then show ?case by (cases q) (auto split: if_splits option.splits)
next
  case (3 obj val field f rest)
  from "3.prems"(2) obtain k q' where q: "q = k # q'" by (cases q) auto
  show ?case
  proof (cases "k = field")
    case False
    with "3.prems" q show ?thesis
      by (auto split: option.splits json.splits result.splits sum.splits)
  next
    case True
    show ?thesis
    proof (cases "fmlookup obj field")
      case None
      with "3.prems"(1) obtain newVal where nv:
        "setNestedFieldNoCopy fmempty val (f # rest) = Returned (Inr newVal)"
        "m' = fmupd field (JMap newVal) obj"
        by (auto split: result.splits sum.splits)
      with "3.prems"(3) q True have fq: "found (JMap newVal) q' = Some (JSlice zs)" by simp
      then have "q' \<noteq> []" by auto
      from "3.IH"(1) [OF None nv(1) this fq] q True show ?thesis
        by (cases q') auto
    next
      case (Some a)
      with "3.prems"(1) obtain valMap valMap' where vm: "a = JMap valMap"
        "setNestedFieldNoCopy valMap val (f # rest) = Returned (Inr valMap')"
        "m' = fmupd field (JMap valMap') obj"
        by (auto split: json.splits result.splits sum.splits)
      with "3.prems"(3) q True have fq: "found (JMap valMap') q' = Some (JSlice zs)" by simp
      then have "q' \<noteq> []" by auto
      from "3.IH"(2) [OF Some vm(1) vm(2) this fq] q True Some vm show ?thesis
        by auto
    qed
  qed
qed

text \<open>
  Reading slices of strings.
\<close>

lemma strings_of_map [simp]: "strings_of (map JString xs) = Some xs"
  by (induction xs) auto

lemma strings_of_length: "strings_of zs = Some ss \<Longrightarrow> length ss = length zs"
  by (induction zs arbitrary: ss rule: strings_of.induct) (auto split: option.splits)

lemma NestedStringSlice_found:
  "NestedStringSlice cfg p =
     (case NestedFieldNoCopy (JMap (entries cfg)) p of
        Found v \<Rightarrow>
          (case found (JMap (entries cfg)) p of
             Some (JSlice m) \<Rightarrow>
               (case strings_of m of
                  Some strSlice \<Rightarrow> (strSlice, True, None)
                | None \<Rightarrow> ([], False, Some (AccessorError p)))
           | _ \<Rightarrow> ([], False, Some (AccessorError p)))
      | NotFound \<Rightarrow> ([], False, None)
      | LookupError err \<Rightarrow> ([], False, Some err))"
  by (simp add: NestedStringSlice_def found_def split: lookup.splits json.splits)

lemma providerNames_found:
  "fst (NestedStringSlice cfg p) =
     (case found (JMap (entries cfg)) p of
        Some (JSlice m) \<Rightarrow> (case strings_of m of Some strSlice \<Rightarrow> strSlice | None \<Rightarrow> [])
      | _ \<Rightarrow> [])"
  by (simp add: NestedStringSlice_def found_def split: lookup.splits json.splits option.splits)

lemma NestedStringSlice_found_strings:
  "found (JMap (entries cfg)) p = Some (JSlice (map JString xs)) \<Longrightarrow>
   NestedStringSlice cfg p = (xs, True, None)"
  by (simp add: NestedStringSlice_def found_def split: lookup.splits)

lemma singleSliceAt_empty: "p \<noteq> [] \<Longrightarrow> singleSliceAt p fmempty"
  by (simp add: singleSliceAt_def)

lemma singleSliceAt_single: "p \<noteq> [] \<Longrightarrow> singleSliceAt p (single p (JSlice [x]))"
  by (simp add: singleSliceAt_def found_single)

lemma singleSliceAt_set:
  assumes "p \<noteq> []" "singleSliceAt p m"
    and s: "setNestedFieldNoCopy m (JSlice [v]) q = Returned (Inr m')"
  shows "singleSliceAt p m'"
proof (cases "found (JMap m') p")
  case None
  then show ?thesis by (simp add: singleSliceAt_def)
next
  case (Some a)
  show ?thesis
  proof (cases a)
    case (JSlice zs)
    with Some have f: "found (JMap m') p = Some (JSlice zs)" by simp
    from set_found_slice [OF s assms(1) f] have "length zs = 1"
    proof
      assume "found (JMap m) p = Some (JSlice zs)"
      with assms(2) show ?thesis by (simp add: singleSliceAt_def)
    next
      assume "\<exists>r. p = q @ r \<and> found (JSlice [v]) r = Some (JSlice zs)"
      then obtain r where r: "found (JSlice [v]) r = Some (JSlice zs)" by blast
      with found_nonmap have "r = []" by blast
      with r show ?thesis by auto
    qed
    with f show ?thesis by (simp add: singleSliceAt_def)
  qed (simp_all add: singleSliceAt_def Some)
qed

lemma singleSliceAt_names:
  "singleSliceAt p m \<Longrightarrow> length (providerNames (Some m) p) \<le> 1"
  by (auto simp: singleSliceAt_def providerNames_def providerNames_found entries_def
      split: option.splits json.splits dest: strings_of_length)

lemma short_names_not_both:
  "length (providerNames cfg p) \<le> 1 \<Longrightarrow> \<not> externalAndInTree cfg p"
  by (cases "providerNames cfg p") (auto simp: externalAndInTree_def inTreeProviders_def)

section \<open>Pruning to two key paths\<close>

text \<open>
  The loop in terms of what is found; from here on it is unfolded through this equation.
\<close>

lemma Pruned_loop_found:
  "Pruned_loop obj (p # pths) acc =
     (case found (JMap obj) p of
        None \<Rightarrow> Pruned_loop obj pths acc
      | Some x \<Rightarrow>
          (case setNestedFieldNoCopy acc x p of
             Panic \<Rightarrow> Panic
           | Returned (Inl err) \<Rightarrow> Pruned_loop obj pths acc
           | Returned (Inr acc') \<Rightarrow> Pruned_loop obj pths acc'))"
  by (simp add: found_def split: lookup.splits)

declare Pruned_loop.simps(2) [simp del]

lemma Pruned_loop_cong:
  "found (JMap m) p = found (JMap m') p \<Longrightarrow> found (JMap m) q = found (JMap m') q \<Longrightarrow>
   Pruned_loop m [p, q] acc = Pruned_loop m' [p, q] acc"
  by (simp add: Pruned_loop_found split: option.splits result.splits sum.splits)

lemma Pruned_loop_nonempty:
  "Pruned_loop m [p, q] acc = Returned r \<Longrightarrow> p \<noteq> [] \<and> q \<noteq> []"
  by (auto simp: Pruned_loop_found split: option.splits result.splits sum.splits)

text \<open>
  Pruning to two non-empty key paths returns, and what is found at either path in the result
  is what was found there before. Hence pruning a pruned map changes nothing.
\<close>

lemma Pruned_loop_two:
  assumes "p \<noteq> []" "q \<noteq> []"
  shows "\<exists>r. Pruned_loop m [p, q] fmempty = Returned r
           \<and> found (JMap r) p = found (JMap m) p \<and> found (JMap r) q = found (JMap m) q"
proof (cases "found (JMap m) p")
  case None
  note pn = this
  show ?thesis
  proof (cases "found (JMap m) q")
    case None
    with pn assms show ?thesis
      by (cases p; cases q) (simp_all add: Pruned_loop_found)
  next
    case (Some y)
    have "found (JMap (single q y)) p = None"
    proof (rule ccontr)
      assume "found (JMap (single q y)) p \<noteq> None"
      then obtain z where "found (JMap (single q y)) p = Some z" by auto
      with found_single_other [OF assms(2) assms(1) Some] pn show False by simp
    qed
    with pn Some assms show ?thesis
      by (simp add: Pruned_loop_found set_empty found_single)
  qed
next
  case (Some x)
  note px = this
  show ?thesis
  proof (cases "found (JMap m) q")
    case None
    have "found (JMap (single p x)) q = None"
    proof (rule ccontr)
      assume "found (JMap (single p x)) q \<noteq> None"
      then obtain z where "found (JMap (single p x)) q = Some z" by auto
      with found_single_other [OF assms(1) assms(2) px] None show False by simp
    qed
    with px None assms show ?thesis
      by (simp add: Pruned_loop_found set_empty found_single)
  next
    case (Some y)
    from set_single_both [OF assms px Some] obtain r where
      "setNestedFieldNoCopy (single p x) y q = Returned (Inr r)"
      "found (JMap r) p = Some x" "found (JMap r) q = Some y" by blast
    with px Some assms show ?thesis
      by (simp add: Pruned_loop_found set_empty)
  qed
qed

lemma Pruned_loop_idem:
  assumes "Pruned_loop m [p, q] fmempty = Returned r"
  shows "Pruned_loop r [p, q] fmempty = Returned r"
proof -
  from assms have ne: "p \<noteq> []" "q \<noteq> []" using Pruned_loop_nonempty by blast+
  from Pruned_loop_two [OF ne, of m] assms
  have "found (JMap r) p = found (JMap m) p" "found (JMap r) q = found (JMap m) q" by auto
  then show ?thesis using Pruned_loop_cong [of r p m q fmempty] assms by simp
qed

lemma Pruned_idem:
  "Pruned cfg [p, q] = Returned cfg' \<Longrightarrow> Pruned cfg' [p, q] = Returned cfg'"
  by (cases cfg) (auto simp: Pruned_def Pruned_loop_idem split: result.splits)

lemma Pruned_total:
  "p \<noteq> [] \<Longrightarrow> q \<noteq> [] \<Longrightarrow> \<exists>cfg'. Pruned cfg [p, q] = Returned cfg'"
proof (cases cfg)
  case None
  then show ?thesis by (simp add: Pruned_def)
next
  case (Some m)
  assume "p \<noteq> []" "q \<noteq> []"
  from Pruned_loop_two [OF this, of m] obtain r where "Pruned_loop m [p, q] fmempty = Returned r"
    by blast
  with Some show ?thesis by (simp add: Pruned_def)
qed

lemma Pruned_found:
  assumes "Pruned (Some m) [p, q] = Returned cfg'"
  shows "\<exists>r. cfg' = Some r \<and> found (JMap r) p = found (JMap m) p \<and> found (JMap r) q = found (JMap m) q"
proof -
  from assms obtain r where r: "Pruned_loop m [p, q] fmempty = Returned r" "cfg' = Some r"
    by (auto simp: Pruned_def split: result.splits)
  then have ne: "p \<noteq> []" "q \<noteq> []" using Pruned_loop_nonempty by blast+
  from Pruned_loop_two [OF ne, of m] r show ?thesis by auto
qed

lemma Pruned_names:
  assumes "Pruned cfg [p, q] = Returned cfg'"
  shows "providerNames cfg' q = providerNames cfg q"
proof (cases cfg)
  case None
  with assms show ?thesis by (simp add: Pruned_def)
next
  case (Some m)
  with assms Pruned_found [of m p q cfg'] show ?thesis
    by (auto simp: providerNames_def providerNames_found entries_def)
qed

text \<open>
  Only keys on the paths or beneath them are left.
\<close>

lemma Pruned_loop_keys:
  "Pruned_loop m pths acc = Returned r \<Longrightarrow> s \<noteq> [] \<Longrightarrow> found (JMap r) s \<noteq> None \<Longrightarrow>
   found (JMap acc) s \<noteq> None \<or> (\<exists>p \<in> set pths. prefix s p \<or> prefix p s)"
proof (induction pths arbitrary: acc)
  case Nil
  then show ?case by simp
next
  case (Cons p pths)
  show ?case
  proof (cases "found (JMap m) p")
    case None
    with Cons.prems have "Pruned_loop m pths acc = Returned r" by (simp add: Pruned_loop_found)
    from Cons.IH [OF this Cons.prems(2,3)] show ?thesis by auto
  next
    case (Some x)
    show ?thesis
    proof (cases "setNestedFieldNoCopy acc x p")
      case Panic
      with Some Cons.prems show ?thesis by (simp add: Pruned_loop_found)
    next
      case (Returned w)
      show ?thesis
      proof (cases w)
        case (Inl e)
        with Some Returned Cons.prems have "Pruned_loop m pths acc = Returned r"
          by (simp add: Pruned_loop_found)
        from Cons.IH [OF this Cons.prems(2,3)] show ?thesis by auto
      next
        case (Inr acc')
        with Some Returned Cons.prems have "Pruned_loop m pths acc' = Returned r"
          by (simp add: Pruned_loop_found)
        from Cons.IH [OF this Cons.prems(2,3)]
        have "found (JMap acc') s \<noteq> None \<or> (\<exists>p \<in> set pths. prefix s p \<or> prefix p s)" .
        moreover have "found (JMap acc') s \<noteq> None \<Longrightarrow>
            found (JMap acc) s \<noteq> None \<or> prefix s p \<or> prefix p s"
          using set_keys [of acc x p acc' s] Returned Inr Cons.prems(2) by simp
        ultimately show ?thesis by auto
      qed
    qed
  qed
qed

lemma Pruned_keys:
  assumes "Pruned cfg [p, q] = Returned cfg'" "s \<noteq> []" "found (JMap (entries cfg')) s \<noteq> None"
  shows "onKeyPath p s \<or> onKeyPath q s"
proof (cases cfg)
  case None
  with assms show ?thesis by (simp add: Pruned_def entries_def)
next
  case (Some m)
  with assms(1) obtain r where r: "Pruned_loop m [p, q] fmempty = Returned r" "cfg' = Some r"
    by (auto simp: Pruned_def split: result.splits)
  with assms(3) have "found (JMap r) s \<noteq> None" by (simp add: entries_def)
  from Pruned_loop_keys [OF r(1) assms(2) this] assms(2) show ?thesis
    by (auto simp: onKeyPath_def)
qed

section \<open>The observer\<close>

text \<open>
  The platform name does not depend on the recorder, and the recorder only gains warnings.
\<close>

lemma GetPlatformName_shape:
  "\<exists>n w. (\<forall>r. GetPlatformName p r = (n, r @ w)) \<and> changedEvents w = []
      \<and> (n \<notin> validCloudProviders \<longrightarrow> n = [])"
  by (cases p) (auto simp: changedEvents_def validCloudProviders_def)

lemma changedEvents_append [simp]:
  "changedEvents (r @ w) = changedEvents r @ changedEvents w"
  by (simp add: changedEvents_def)

lemma changedEvents_Warningf [simp]: "changedEvents [Warningf a b c] = []"
  by (simp add: changedEvents_def)

lemma observeProviderName_eq:
  "cloudProviderNamePath c \<noteq> [] \<Longrightarrow>
   observeProviderName c external cp =
     Returned (if external then single (cloudProviderNamePath c) (JSlice [JString ''external''])
               else if cp \<noteq> [] then single (cloudProviderNamePath c) (JSlice [JString cp])
               else fmempty, [])"
  by (simp add: observeProviderName_def SetNestedStringSlice_def set_empty)

text \<open>
  The body returns when the key paths are not empty, and the deferred pruning keeps all of
  its results but the configuration.
\<close>

lemma observeBody_total:
  assumes "cloudProviderNamePath c \<noteq> []" "cloudProviderConfigPath c \<noteq> []"
  shows "\<exists>ob. observeBody c ext (InfraListers l) r0 ex = Returned ob"
  using assms set_not_panic [of "cloudProviderConfigPath c"]
  by (auto simp: observeBody_def observeProviderName_eq Let_def SetNestedStringSlice_def
      split: sum.splits prod.splits option.splits result.splits)

lemma Observe_total:
  assumes "cloudProviderNamePath c \<noteq> []" "cloudProviderConfigPath c \<noteq> []"
  shows "\<exists>ob. ObserveCloudProviderNames c ext (InfraListers l) r0 ex = Returned ob"
proof -
  from observeBody_total [OF assms] obtain ob where
    ob: "observeBody c ext (InfraListers l) r0 ex = Returned ob" by blast
  from Pruned_total [OF assms(2) assms(1)] obtain cfg' where
    "Pruned (ret ob) [cloudProviderConfigPath c, cloudProviderNamePath c] = Returned cfg'" by blast
  with ob show ?thesis by (simp add: ObserveCloudProviderNames_def)
qed

lemma Observe_body:
  "ObserveCloudProviderNames c ext L r0 ex = Returned ob \<Longrightarrow>
   \<exists>b. observeBody c ext L r0 ex = Returned b
      \<and> Pruned (ret b) [cloudProviderConfigPath c, cloudProviderNamePath c] = Returned (ret ob)
      \<and> ob = b\<lparr>ret := ret ob\<rparr>"
  by (auto simp: ObserveCloudProviderNames_def split: result.splits)

text \<open>
  The hard-error returns hand back the prior configuration with an error, and they are the
  hard errors in the words of the specification.
\<close>

lemma observeBody_hard:
  "observeBody c ext L r0 ex = Returned ob \<Longrightarrow> exit ob \<in> hardErrorExits \<Longrightarrow>
   ret ob = ex \<and> errs ob \<noteq> []"
  by (auto simp: observeBody_def Let_def hardErrorExits_def
      split: Listers.splits sum.splits prod.splits option.splits result.splits if_splits)

lemma observeBody_hardError:
  "observeBody c ext (InfraListers l) r0 ex = Returned ob \<Longrightarrow>
   hardError ext l ob = (exit ob \<in> hardErrorExits)"
  by (auto simp: observeBody_def Let_def hardErrorExits_def hardError_def sourceCloudConfig_def
      split: sum.splits prod.splits option.splits result.splits if_splits)

lemma Observe_hard:
  assumes "ObserveCloudProviderNames c ext (InfraListers l) r0 ex = Returned ob"
    and "hardError ext l ob"
  shows "Pruned ex [cloudProviderConfigPath c, cloudProviderNamePath c] = Returned (ret ob)
         \<and> errs ob \<noteq> []"
proof -
  from Observe_body [OF assms(1)] obtain b where
    b: "observeBody c ext (InfraListers l) r0 ex = Returned b"
       "Pruned (ret b) [cloudProviderConfigPath c, cloudProviderNamePath c] = Returned (ret ob)"
       "ob = b\<lparr>ret := ret ob\<rparr>" by blast
  have same: "exit ob = exit b" "errs ob = errs b" "synced ob = synced b"
    by (subst b(3), simp)+
  have "hardError ext l ob = hardError ext l b"
    unfolding hardError_def same ..
  with observeBody_hardError [OF b(1)] assms(2) have "exit b \<in> hardErrorExits" by simp
  with observeBody_hard [OF b(1)] b(2) same show ?thesis by auto
qed

text \<open>
  The return taken, the sync requests and the freshly observed configuration do not depend
  on the prior configuration or on the recorder.
\<close>

lemma body_exit_independent:
  assumes "observeBody c ext L r0 ex = Returned b" "observeBody c ext L r0' ex' = Returned b'"
  shows "exit b' = exit b \<and> synced b' = synced b"
proof (cases L)
  case OtherListers
  with assms show ?thesis by (simp add: observeBody_def)
next
  case (InfraListers l)
  show ?thesis
  proof (cases "InfrastructureLister_Get l ''cluster''")
    case (Inl e)
    with assms InfraListers show ?thesis
      by (auto simp: observeBody_def split: if_splits)
  next
    case (Inr infra)
    from GetPlatformName_shape [of "Status_Platform infra"] obtain n w where
      nw: "\<And>r. GetPlatformName (Status_Platform infra) r = (n, r @ w)" by blast
    from assms InfraListers Inr show ?thesis
      by (auto simp: observeBody_def nw Let_def
          split: sum.splits prod.splits option.splits result.splits if_splits)
  qed
qed

lemma body_returns_independent:
  assumes "observeBody c ext L r0 ex = Returned b"
  shows "\<exists>b'. observeBody c ext L r0' ex' = Returned b'"
proof (cases L)
  case OtherListers
  with assms show ?thesis by (simp add: observeBody_def)
next
  case (InfraListers l)
  show ?thesis
  proof (cases "InfrastructureLister_Get l ''cluster''")
    case (Inl e)
    with assms InfraListers show ?thesis
      by (auto simp: observeBody_def split: if_splits)
  next
    case (Inr infra)
    from GetPlatformName_shape [of "Status_Platform infra"] obtain n w where
      nw: "\<And>r. GetPlatformName (Status_Platform infra) r = (n, r @ w)" by blast
    from assms InfraListers Inr show ?thesis
      by (auto simp: observeBody_def nw Let_def
          split: sum.splits prod.splits option.splits result.splits if_splits)
  qed
qed

lemma body_fresh_independent:
  assumes "observeBody c ext L r0 ex = Returned b" "observeBody c ext L r0' ex' = Returned b'"
    and "exit b \<notin> hardErrorExits"
  shows "ret b' = ret b"
proof (cases L)
  case OtherListers
  with assms show ?thesis by (simp add: observeBody_def)
next
  case (InfraListers l)
  show ?thesis
  proof (cases "InfrastructureLister_Get l ''cluster''")
    case (Inl e)
    with assms InfraListers show ?thesis
      by (auto simp: observeBody_def hardErrorExits_def split: if_splits)
  next
    case (Inr infra)
    from GetPlatformName_shape [of "Status_Platform infra"] obtain n w where
      nw: "\<And>r. GetPlatformName (Status_Platform infra) r = (n, r @ w)" by blast
    from assms InfraListers Inr show ?thesis
      by (auto simp: observeBody_def nw Let_def hardErrorExits_def
          split: sum.splits prod.splits option.splits result.splits if_splits)
  qed
qed

lemma body_hard_events:
  assumes "observeBody c ext L r0 ex = Returned b" "exit b \<noteq> Observed"
  shows "changedEvents (recorded b) = changedEvents r0"
proof (cases L)
  case OtherListers
  with assms show ?thesis by (simp add: observeBody_def)
next
  case (InfraListers l)
  show ?thesis
  proof (cases "InfrastructureLister_Get l ''cluster''")
    case (Inl e)
    with assms InfraListers show ?thesis
      by (auto simp: observeBody_def split: if_splits)
  next
    case (Inr infra)
    from GetPlatformName_shape [of "Status_Platform infra"] obtain n w where
      nw: "\<And>r. GetPlatformName (Status_Platform infra) r = (n, r @ w)" "changedEvents w = []"
      by blast
    from assms InfraListers Inr show ?thesis
      by (auto simp: observeBody_def nw Let_def
          split: sum.splits prod.splits option.splits result.splits if_splits)
  qed
qed

text \<open>
  What the final return has written and requested.
\<close>

lemma body_observed:
  assumes "observeBody c ext L r0 ex = Returned b" "exit b = Observed"
  shows "\<exists>oc file. ret b = Some oc
           \<and> found (JMap oc) (cloudProviderConfigPath c) = Some (JSlice [JString file])
           \<and> (fst (NestedStringSlice ex (cloudProviderConfigPath c)) = [file] \<longrightarrow>
                changedEvents (recorded b) = changedEvents r0)"
proof (cases L)
  case OtherListers
  with assms show ?thesis by (simp add: observeBody_def)
next
  case (InfraListers l)
  show ?thesis
  proof (cases "InfrastructureLister_Get l ''cluster''")
    case (Inl e)
    with assms InfraListers show ?thesis
      by (auto simp: observeBody_def split: if_splits)
  next
    case (Inr infra)
    from GetPlatformName_shape [of "Status_Platform infra"] obtain n w where
      nw: "\<And>r. GetPlatformName (Status_Platform infra) r = (n, r @ w)" "changedEvents w = []"
      by blast
    from assms InfraListers Inr show ?thesis
      by (auto simp: observeBody_def nw Let_def SetNestedStringSlice_def
          dest!: set_found
          split: sum.splits prod.splits option.splits result.splits if_splits)
  qed
qed

lemma body_observed_file:
  assumes "observeBody c ext (InfraListers l) r0 ex = Returned b" "exit b = Observed"
    and "InfrastructureLister_Get l ''cluster'' = Inr infra"
    and "sourceCloudConfig l infra = Inr (name, ns, key)"
  shows "\<exists>oc. ret b = Some oc
           \<and> found (JMap oc) (cloudProviderConfigPath c)
               = Some (JSlice [JString (cloudProviderConfFilePath @ key)])"
proof -
  from GetPlatformName_shape [of "Status_Platform infra"] obtain n w where
    nw: "\<And>r. GetPlatformName (Status_Platform infra) r = (n, r @ w)" by blast
  from assms show ?thesis
    by (auto simp: observeBody_def nw Let_def SetNestedStringSlice_def
        dest!: set_found
        split: sum.splits prod.splits option.splits result.splits if_splits)
qed

lemma body_synced:
  assumes "observeBody c ext (InfraListers l) r0 ex = Returned b"
    and "InfrastructureLister_Get l ''cluster'' = Inr infra"
    and "IsCloudProviderExternal ext l (Status_PlatformStatus infra) = Inr external"
    and "sourceCloudConfig l infra = Inr (name, ns, key)"
  shows "synced b = [(\<lparr>Namespace = targetNamespaceName c, Name = ''cloud-config''\<rparr>,
                      if fst (GetPlatformName (Status_Platform infra) r0) \<in> validCloudProviders
                         \<and> name \<noteq> ''''
                      then \<lparr>Namespace = ns, Name = name\<rparr>
                      else \<lparr>Namespace = '''', Name = ''''\<rparr>)]"
proof -
  from GetPlatformName_shape [of "Status_Platform infra"] obtain n w where
    nw: "\<And>r. GetPlatformName (Status_Platform infra) r = (n, r @ w)" by blast
  from assms show ?thesis
    by (auto simp: observeBody_def nw Let_def
        split: sum.splits prod.splits option.splits result.splits if_splits)
qed

lemma body_fresh_names:
  assumes "observeBody c ext (InfraListers l) r0 ex = Returned b" "exit b \<notin> hardErrorExits"
    and ne: "cloudProviderNamePath c \<noteq> []"
  shows "\<exists>oc. ret b = Some oc \<and> singleSliceAt (cloudProviderNamePath c) oc"
proof (cases "InfrastructureLister_Get l ''cluster''")
  case (Inl e)
  with assms show ?thesis
    by (auto simp: observeBody_def hardErrorExits_def singleSliceAt_empty split: if_splits)
next
  case (Inr infra)
  from GetPlatformName_shape [of "Status_Platform infra"] obtain n w where
    nw: "\<And>r. GetPlatformName (Status_Platform infra) r = (n, r @ w)" by blast
  note facts = singleSliceAt_empty [OF ne] singleSliceAt_single [OF ne]
    singleSliceAt_set [OF ne singleSliceAt_empty [OF ne]]
    singleSliceAt_set [OF ne singleSliceAt_single [OF ne]]
  from assms Inr show ?thesis
    by (auto simp: observeBody_def nw Let_def hardErrorExits_def observeProviderName_eq
          SetNestedStringSlice_def facts
        split: sum.splits prod.splits option.splits result.splits if_splits)
qed

text \<open>
  Unfolding the observer on the example clusters.
\<close>

lemmas observe_eval =
  ObserveCloudProviderNames_def observeBody_def IsCloudProviderExternal_def
  observeProviderName_def SetNestedStringSlice_def sourceCloudConfig_def
  validCloudProviders_def NestedStringSlice_def entries_def Pruned_def Pruned_loop_found
  Let_def exListers_def exObserver_def exInfrastructure_def exExternal_def exCluster_def
  exPrior_def cloudProviderConfFilePath_def configNamespace_def
  machineSpecifiedConfigNamespace_def machineSpecifiedConfig_def

section \<open>The claims\<close>

subsection \<open>C1: the configuration returned on a hard error\<close>

text \<open>
  Claim C1 says that every call that ends in a hard error returns the prior configuration
  unchanged. This fails: after an infrastructure lookup error the prior configuration comes
  back without its key \<open>servingInfo\<close>, which lies outside the two key paths, because the
  deferred pruning also runs on this return.
\<close>

theorem hard_error_prior_not_unchanged:
  "ObserveCloudProviderNames exObserver (exExternal False)
     (InfraListers (exListers (Inl (StatusOther ''timeout'')) (Inr ()) None None)) [] exPrior
   = Returned \<lparr>ret = Some fmempty, errs = [StatusOther ''timeout''], recorded = [], synced = [],
       exit = InfrastructureError\<rparr>
   \<and> Some fmempty \<noteq> exPrior"
  by (simp add: observe_eval)

text \<open>
  Claim C1, amended. An observer with non-empty key paths returns from every call, and every
  call that ends in a hard error (an infrastructure lookup error other than not-found, an
  external-provider check error, a managed config-map lookup error other than not-found, a
  failed sync request, a failed write of the config path) returns the prior configuration
  pruned to the two key paths, together with a non-empty error list.
\<close>

theorem hard_error_returns_pruned_prior:
  assumes "cloudProviderNamePath c \<noteq> []" "cloudProviderConfigPath c \<noteq> []"
  shows "\<exists>ob. ObserveCloudProviderNames c ext (InfraListers l) r0 existingConfig = Returned ob
           \<and> (hardError ext l ob \<longrightarrow>
                Pruned existingConfig [cloudProviderConfigPath c, cloudProviderNamePath c]
                  = Returned (ret ob)
                \<and> errs ob \<noteq> [])"
proof -
  from Observe_total [OF assms] obtain ob where
    ob: "ObserveCloudProviderNames c ext (InfraListers l) r0 existingConfig = Returned ob" by blast
  with Observe_hard [OF ob] show ?thesis by blast
qed

text \<open>Claim C1, amended, at a lookup that times out.\<close>

theorem hard_error_returns_pruned_prior_witness:
  "cloudProviderNamePath exObserver \<noteq> [] \<and> cloudProviderConfigPath exObserver \<noteq> []
   \<and> (\<exists>ob. ObserveCloudProviderNames exObserver (exExternal False)
          (InfraListers (exListers (Inl (StatusOther ''timeout'')) (Inr ()) None None)) []
          exPrior = Returned ob
        \<and> hardError (exExternal False)
            (exListers (Inl (StatusOther ''timeout'')) (Inr ()) None None) ob
        \<and> Pruned exPrior [cloudProviderConfigPath exObserver, cloudProviderNamePath exObserver]
            = Returned (ret ob)
        \<and> errs ob \<noteq> [])"
  using hard_error_returns_pruned_prior [of exObserver "exExternal False"
      "exListers (Inl (StatusOther ''timeout'')) (Inr ()) None None" "[]" exPrior]
  by (auto simp: exObserver_def exListers_def hardError_def)

subsection \<open>C2: no panic\<close>

text \<open>
  Claim C2 says that the observer never panics, whatever listers value is injected. This
  fails: a listers value that does not implement \<^verbatim>\<open>InfrastructureLister\<close> makes the
  unchecked type assertion of line 58 panic.
\<close>

theorem other_listers_panic:
  "ObserveCloudProviderNames exObserver (exExternal False) (OtherListers :: (unit, unit) Listers)
     [] exPrior = Panic"
  by (simp add: ObserveCloudProviderNames_def observeBody_def)

text \<open>
  Claim C2, amended. For every listers value that implements
  \<^verbatim>\<open>InfrastructureLister\<close>, every recorder and every prior configuration, an
  observer with non-empty key paths does not panic: the call returns a configuration together
  with its list of errors, and the list is not empty when the call ends in a hard error.
\<close>

theorem observe_returns:
  assumes "cloudProviderNamePath c \<noteq> []" "cloudProviderConfigPath c \<noteq> []"
  shows "\<exists>ob. ObserveCloudProviderNames c ext (InfraListers l) r0 existingConfig = Returned ob
           \<and> (hardError ext l ob \<longrightarrow> errs ob \<noteq> [])"
proof -
  from Observe_total [OF assms] obtain ob where
    ob: "ObserveCloudProviderNames c ext (InfraListers l) r0 existingConfig = Returned ob" by blast
  with Observe_hard [OF ob] show ?thesis by blast
qed

text \<open>Claim C2, amended, at a sync request that fails.\<close>

theorem observe_returns_witness:
  "cloudProviderNamePath exObserver \<noteq> [] \<and> cloudProviderConfigPath exObserver \<noteq> []
   \<and> (\<exists>ob. ObserveCloudProviderNames exObserver (exExternal False)
          (InfraListers (exListers
             (Inr (exInfrastructure AWSPlatformType ''cloud-provider-config'' ''config''))
             (Inr ()) None (Some (StatusOther ''sync'')))) [] exPrior = Returned ob
        \<and> hardError (exExternal False)
            (exListers (Inr (exInfrastructure AWSPlatformType ''cloud-provider-config'' ''config''))
               (Inr ()) None (Some (StatusOther ''sync''))) ob
        \<and> errs ob \<noteq> [])"
  using observe_returns [of exObserver "exExternal False"
      "exListers (Inr (exInfrastructure AWSPlatformType ''cloud-provider-config'' ''config''))
         (Inr ()) None (Some (StatusOther ''sync''))" "[]" exPrior]
  by (auto simp: observe_eval hardError_def)

subsection \<open>C3: only the two key paths survive\<close>

text \<open>
  Claim C3. On every return path the returned map holds only keys reachable through the two
  configured key paths: every key path that resolves in the result lies on the config path or
  on the name path, or beneath one of them. Any other key of the prior configuration, or one
  written on the way, is absent.
\<close>

theorem result_holds_only_configured_paths:
  assumes "cloudProviderNamePath c \<noteq> []" "cloudProviderConfigPath c \<noteq> []"
  shows "\<exists>ob. ObserveCloudProviderNames c ext (InfraListers l) r0 existingConfig = Returned ob
           \<and> (\<forall>s. s \<noteq> [] \<longrightarrow> found (JMap (entries (ret ob))) s \<noteq> None \<longrightarrow>
                  onKeyPath (cloudProviderConfigPath c) s \<or> onKeyPath (cloudProviderNamePath c) s)"
proof -
  from Observe_total [OF assms] obtain ob where
    ob: "ObserveCloudProviderNames c ext (InfraListers l) r0 existingConfig = Returned ob" by blast
  from Observe_body [OF ob] obtain b :: observation where
    b: "Pruned (ret b) [cloudProviderConfigPath c, cloudProviderNamePath c] = Returned (ret ob)"
    by blast
  from ob Pruned_keys [OF b] show ?thesis by blast
qed

text \<open>Claim C3 on an AWS cluster, at the key path of the provider name.\<close>

theorem result_holds_only_configured_paths_witness:
  "cloudProviderNamePath exObserver \<noteq> [] \<and> cloudProviderConfigPath exObserver \<noteq> []
   \<and> (\<exists>ob. ObserveCloudProviderNames exObserver (exExternal False)
          (InfraListers (exCluster AWSPlatformType (Some (StatusNotFound ''kube-cloud-config''))))
          [] exPrior = Returned ob
        \<and> [''apiServerArguments'', ''cloud-provider''] \<noteq> []
        \<and> found (JMap (entries (ret ob))) [''apiServerArguments'', ''cloud-provider''] \<noteq> None
        \<and> (onKeyPath (cloudProviderConfigPath exObserver) [''apiServerArguments'', ''cloud-provider'']
           \<or> onKeyPath (cloudProviderNamePath exObserver) [''apiServerArguments'', ''cloud-provider'']))"
  using result_holds_only_configured_paths [of exObserver "exExternal False"
      "exCluster AWSPlatformType (Some (StatusNotFound ''kube-cloud-config''))" "[]" exPrior]
  by (simp add: observe_eval onKeyPath_def)

subsection \<open>C4: providers outside the allow-list\<close>

text \<open>
  Claim C4. When the resolved provider is none of \<open>aws\<close>, \<open>azure\<close>, \<open>gce\<close>,
  \<open>openstack\<close>, \<open>vsphere\<close>, no sync source is set and no config-file path is written,
  in every state of the config-maps: when the lookup of the managed config-map fails, no
  sync request is issued at all; otherwise the one sync request has the empty source
  location, whichever source config-map was selected before, and the call ends at the return
  for "no source config-map" with the pruned configuration that holds at most the provider
  name, or at the return for a failed sync. No "changed" event is recorded.
\<close>

theorem other_providers_sync_nothing:
  assumes "InfrastructureLister_Get l ''cluster'' = Inr infra"
    and "IsCloudProviderExternal ext l (Status_PlatformStatus infra) = Inr external"
    and "fst (GetPlatformName (Status_Platform infra) r0) \<notin> validCloudProviders"
    and "cloudProviderNamePath c \<noteq> []" "cloudProviderConfigPath c \<noteq> []"
  shows "\<exists>ob. ObserveCloudProviderNames c ext (InfraListers l) r0 existingConfig = Returned ob
           \<and> changedEvents (recorded ob) = changedEvents r0
           \<and> (case sourceCloudConfig l infra of
                 Inl err \<Rightarrow> synced ob = [] \<and> exit ob = ConfigMapError
               | Inr src \<Rightarrow>
                   synced ob = [(\<lparr>Namespace = targetNamespaceName c, Name = ''cloud-config''\<rparr>,
                                 \<lparr>Namespace = '''', Name = ''''\<rparr>)]
                   \<and> (case ResourceSyncer_SyncConfigMap l
                              \<lparr>Namespace = targetNamespaceName c, Name = ''cloud-config''\<rparr>
                              \<lparr>Namespace = '''', Name = ''''\<rparr> of
                         None \<Rightarrow>
                           exit ob = NoSourceConfigMap \<and> errs ob = []
                           \<and> Pruned (Some (if external
                                  then single (cloudProviderNamePath c)
                                         (JSlice [JString ''external''])
                                  else fmempty))
                                [cloudProviderConfigPath c, cloudProviderNamePath c]
                               = Returned (ret ob)
                       | Some err \<Rightarrow>
                           exit ob = SyncError \<and> errs ob = [err]
                           \<and> Pruned existingConfig
                                [cloudProviderConfigPath c, cloudProviderNamePath c]
                               = Returned (ret ob)))"
proof -
  from Observe_total [OF assms(4,5)] obtain ob where
    ob: "ObserveCloudProviderNames c ext (InfraListers l) r0 existingConfig = Returned ob" by blast
  from Observe_body [OF ob] obtain b :: observation where
    b: "observeBody c ext (InfraListers l) r0 existingConfig = Returned b"
       "Pruned (ret b) [cloudProviderConfigPath c, cloudProviderNamePath c] = Returned (ret ob)"
       "ob = b\<lparr>ret := ret ob\<rparr>" by blast
  have same: "exit ob = exit b" "errs ob = errs b" "synced ob = synced b" "recorded ob = recorded b"
    by (subst b(3), simp)+
  from GetPlatformName_shape [of "Status_Platform infra"] obtain n w where
    nw: "\<And>r. GetPlatformName (Status_Platform infra) r = (n, r @ w)" "changedEvents w = []"
        "n \<notin> validCloudProviders \<longrightarrow> n = []" by blast
  with assms(3) have n: "n = []" by simp
  from b(1) assms(1,2,4) have
    "changedEvents (recorded b) = changedEvents r0
     \<and> (case sourceCloudConfig l infra of
           Inl err \<Rightarrow> synced b = [] \<and> exit b = ConfigMapError
         | Inr src \<Rightarrow>
             synced b = [(\<lparr>Namespace = targetNamespaceName c, Name = ''cloud-config''\<rparr>,
                          \<lparr>Namespace = '''', Name = ''''\<rparr>)]
             \<and> (case ResourceSyncer_SyncConfigMap l
                        \<lparr>Namespace = targetNamespaceName c, Name = ''cloud-config''\<rparr>
                        \<lparr>Namespace = '''', Name = ''''\<rparr> of
                   None \<Rightarrow>
                     exit b = NoSourceConfigMap \<and> errs b = []
                     \<and> ret b = Some (if external
                            then single (cloudProviderNamePath c) (JSlice [JString ''external''])
                            else fmempty)
                 | Some err \<Rightarrow> exit b = SyncError \<and> errs b = [err] \<and> ret b = existingConfig))"
    by (auto simp: observeBody_def nw n observeProviderName_eq Let_def
          validCloudProviders_def split: sum.splits option.splits)
  with b(2) same ob show ?thesis
    by (auto split: sum.splits option.splits)
qed

text \<open>Claim C4 on a cluster without platform whose managed config-map exists.\<close>

theorem other_providers_sync_nothing_witness:
  "InfrastructureLister_Get (exCluster NonePlatformType None) ''cluster''
     = Inr (exInfrastructure NonePlatformType ''cloud-provider-config'' ''config'')
   \<and> IsCloudProviderExternal (exExternal False) (exCluster NonePlatformType None)
        (Status_PlatformStatus (exInfrastructure NonePlatformType ''cloud-provider-config'' ''config''))
       = Inr False
   \<and> fst (GetPlatformName
        (Status_Platform (exInfrastructure NonePlatformType ''cloud-provider-config'' ''config'')) [])
       \<notin> validCloudProviders
   \<and> cloudProviderNamePath exObserver \<noteq> [] \<and> cloudProviderConfigPath exObserver \<noteq> []
   \<and> sourceCloudConfig (exCluster NonePlatformType None)
        (exInfrastructure NonePlatformType ''cloud-provider-config'' ''config'')
       = Inr (machineSpecifiedConfig, machineSpecifiedConfigNamespace, ''cloud.conf'')
   \<and> ObserveCloudProviderNames exObserver (exExternal False)
        (InfraListers (exCluster NonePlatformType None)) [] exPrior
       = Returned \<lparr>ret = Some fmempty, errs = [], recorded = [],
           synced = [(\<lparr>Namespace = ''openshift-kube-apiserver'', Name = ''cloud-config''\<rparr>,
                      \<lparr>Namespace = '''', Name = ''''\<rparr>)],
           exit = NoSourceConfigMap\<rparr>"
  using other_providers_sync_nothing [of "exCluster NonePlatformType None"
      "exInfrastructure NonePlatformType ''cloud-provider-config'' ''config''"
      "exExternal False" False "[]" exObserver exPrior]
  by (simp add: observe_eval)

subsection \<open>C5: external mode and the allow-list\<close>

text \<open>
  Claim C5. In external mode the allow-list is checked against the in-tree platform name, not
  against \<open>external\<close>: when the platform resolves to a provider of the allow-list, a source
  config-map is selected and its sync succeeds, the sync is requested from that source, the
  config-file path is written at the config path, and the provider name at the name path is
  \<open>external\<close>. The two key paths do not lie on one another.
\<close>

theorem external_mode_still_syncs:
  assumes "InfrastructureLister_Get l ''cluster'' = Inr infra"
    and "IsCloudProviderExternal ext l (Status_PlatformStatus infra) = Inr True"
    and "fst (GetPlatformName (Status_Platform infra) r0) \<in> validCloudProviders"
    and "sourceCloudConfig l infra = Inr (name, ns, key)" "name \<noteq> ''''"
    and "ResourceSyncer_SyncConfigMap l
           \<lparr>Namespace = targetNamespaceName c, Name = ''cloud-config''\<rparr>
           \<lparr>Namespace = ns, Name = name\<rparr> = None"
    and "\<not> prefix (cloudProviderNamePath c) (cloudProviderConfigPath c)"
    and "\<not> prefix (cloudProviderConfigPath c) (cloudProviderNamePath c)"
  shows "\<exists>ob. ObserveCloudProviderNames c ext (InfraListers l) r0 existingConfig = Returned ob
           \<and> exit ob = Observed
           \<and> synced ob = [(\<lparr>Namespace = targetNamespaceName c, Name = ''cloud-config''\<rparr>,
                            \<lparr>Namespace = ns, Name = name\<rparr>)]
           \<and> NestedStringSlice (ret ob) (cloudProviderConfigPath c)
                = ([cloudProviderConfFilePath @ key], True, None)
           \<and> NestedStringSlice (ret ob) (cloudProviderNamePath c) = ([''external''], True, None)"
proof -
  let ?np = "cloudProviderNamePath c" and ?cp = "cloudProviderConfigPath c"
  from assms(7,8) have ne: "?np \<noteq> []" "?cp \<noteq> []" by auto
  from Observe_total [OF ne] obtain ob where
    ob: "ObserveCloudProviderNames c ext (InfraListers l) r0 existingConfig = Returned ob" by blast
  from Observe_body [OF ob] obtain b :: observation where
    b: "observeBody c ext (InfraListers l) r0 existingConfig = Returned b"
       "Pruned (ret b) [?cp, ?np] = Returned (ret ob)"
       "ob = b\<lparr>ret := ret ob\<rparr>" by blast
  have same: "exit ob = exit b" "synced ob = synced b"
    by (subst b(3), simp)+
  from GetPlatformName_shape [of "Status_Platform infra"] obtain n w where
    nw: "\<And>r. GetPlatformName (Status_Platform infra) r = (n, r @ w)" by blast
  with assms(3) have n: "n \<in> validCloudProviders" by simp
  from set_single_apart [OF assms(7,8)] obtain oc where
    oc: "setNestedFieldNoCopy (single ?np (JSlice [JString ''external'']))
           (JSlice [JString (cloudProviderConfFilePath @ key)]) ?cp = Returned (Inr oc)"
        "found (JMap oc) ?np = Some (JSlice [JString ''external''])"
        "found (JMap oc) ?cp = Some (JSlice [JString (cloudProviderConfFilePath @ key)])"
    by blast
  from b(1) assms(1,2,4,5,6) ne have body:
    "exit b = Observed
     \<and> synced b = [(\<lparr>Namespace = targetNamespaceName c, Name = ''cloud-config''\<rparr>,
                     \<lparr>Namespace = ns, Name = name\<rparr>)]
     \<and> ret b = Some oc"
    by (auto simp: observeBody_def nw n observeProviderName_eq Let_def
          SetNestedStringSlice_def oc(1) split: prod.splits)
  with b(2) have "Pruned (Some oc) [?cp, ?np] = Returned (ret ob)" by simp
  from Pruned_found [OF this] oc(2,3) obtain r where r: "ret ob = Some r"
    "found (JMap r) ?cp = Some (JSlice (map JString [cloudProviderConfFilePath @ key]))"
    "found (JMap r) ?np = Some (JSlice (map JString [''external'']))" by auto
  then have "NestedStringSlice (ret ob) ?cp = ([cloudProviderConfFilePath @ key], True, None)"
    "NestedStringSlice (ret ob) ?np = ([''external''], True, None)"
    using NestedStringSlice_found_strings [of "ret ob" ?cp "[cloudProviderConfFilePath @ key]"]
      NestedStringSlice_found_strings [of "ret ob" ?np "[''external'']"]
    by (simp_all add: entries_def)
  with body same ob show ?thesis by simp
qed

text \<open>Claim C5 on an AWS cluster in external mode.\<close>

theorem external_mode_still_syncs_witness:
  "InfrastructureLister_Get (exCluster AWSPlatformType (Some (StatusNotFound ''kube-cloud-config'')))
       ''cluster''
     = Inr (exInfrastructure AWSPlatformType ''cloud-provider-config'' ''config'')
   \<and> IsCloudProviderExternal (exExternal True)
        (exCluster AWSPlatformType (Some (StatusNotFound ''kube-cloud-config'')))
        (Status_PlatformStatus (exInfrastructure AWSPlatformType ''cloud-provider-config'' ''config''))
       = Inr True
   \<and> fst (GetPlatformName
        (Status_Platform (exInfrastructure AWSPlatformType ''cloud-provider-config'' ''config'')) [])
       \<in> validCloudProviders
   \<and> sourceCloudConfig (exCluster AWSPlatformType (Some (StatusNotFound ''kube-cloud-config'')))
        (exInfrastructure AWSPlatformType ''cloud-provider-config'' ''config'')
       = Inr (''cloud-provider-config'', configNamespace, ''config'')
   \<and> ''cloud-provider-config'' \<noteq> ''''
   \<and> ResourceSyncer_SyncConfigMap
        (exCluster AWSPlatformType (Some (StatusNotFound ''kube-cloud-config'')))
        \<lparr>Namespace = targetNamespaceName exObserver, Name = ''cloud-config''\<rparr>
        \<lparr>Namespace = configNamespace, Name = ''cloud-provider-config''\<rparr> = None
   \<and> \<not> prefix (cloudProviderNamePath exObserver) (cloudProviderConfigPath exObserver)
   \<and> \<not> prefix (cloudProviderConfigPath exObserver) (cloudProviderNamePath exObserver)
   \<and> ObserveCloudProviderNames exObserver (exExternal True)
        (InfraListers (exCluster AWSPlatformType (Some (StatusNotFound ''kube-cloud-config''))))
        [] exPrior
       = Returned \<lparr>ret = Some (fmupd ''apiServerArguments''
             (JMap (fmupd ''cloud-provider'' (JSlice [JString ''external''])
                (fmupd ''cloud-config''
                   (JSlice [JString (cloudProviderConfFilePath @ ''config'')]) fmempty)))
             fmempty),
           errs = [],
           recorded = [Eventf ''ObserveCloudProviderNamesChanges''
             ''CloudProvider config file changed to %s''
             [ArgString (cloudProviderConfFilePath @ ''config'')]],
           synced = [(\<lparr>Namespace = ''openshift-kube-apiserver'', Name = ''cloud-config''\<rparr>,
                      \<lparr>Namespace = configNamespace, Name = ''cloud-provider-config''\<rparr>)],
           exit = Observed\<rparr>"
  using external_mode_still_syncs [of
      "exCluster AWSPlatformType (Some (StatusNotFound ''kube-cloud-config''))"
      "exInfrastructure AWSPlatformType ''cloud-provider-config'' ''config''"
      "exExternal True" "[]" "''cloud-provider-config''" configNamespace "''config''"
      exObserver exPrior]
  by (simp add: observe_eval)

subsection \<open>C6: infrastructure not found\<close>

text \<open>
  Claim C6. When the lookup of the infrastructure resource answers "not found", the observer
  returns an empty configuration and an empty error list, whatever the prior configuration;
  it records one warning and issues no sync request. The key paths of the observer are not
  empty.
\<close>

theorem infrastructure_not_found_returns_empty:
  assumes "InfrastructureLister_Get l ''cluster'' = Inl err" "IsNotFound err"
    and "cloudProviderNamePath c \<noteq> []" "cloudProviderConfigPath c \<noteq> []"
  shows "ObserveCloudProviderNames c ext (InfraListers l) r0 existingConfig =
           Returned \<lparr>ret = Some fmempty, errs = [],
             recorded = r0 @ [Warningf ''ObserveCloudProviderNames''
               ''Required infrastructures.%s/cluster not found'' [ArgString GroupName]],
             synced = [], exit = InfrastructureNotFound\<rparr>"
  using assms
  by (simp add: ObserveCloudProviderNames_def observeBody_def Pruned_def Pruned_loop_found)

text \<open>Claim C6 at a prior configuration that is not empty.\<close>

theorem infrastructure_not_found_returns_empty_witness:
  "InfrastructureLister_Get
       (exListers (Inl (StatusNotFound ''cluster'')) (Inr ()) None None) ''cluster''
     = Inl (StatusNotFound ''cluster'')
   \<and> IsNotFound (StatusNotFound ''cluster'')
   \<and> cloudProviderNamePath exObserver \<noteq> [] \<and> cloudProviderConfigPath exObserver \<noteq> []
   \<and> ObserveCloudProviderNames exObserver (exExternal True)
        (InfraListers (exListers (Inl (StatusNotFound ''cluster'')) (Inr ()) None None)) []
        (Some (fmupd ''servingInfo'' (JString ''x'') fmempty)) =
      Returned \<lparr>ret = Some fmempty, errs = [],
        recorded = [Warningf ''ObserveCloudProviderNames''
          ''Required infrastructures.%s/cluster not found'' [ArgString GroupName]],
        synced = [], exit = InfrastructureNotFound\<rparr>"
  using infrastructure_not_found_returns_empty
    [of "exListers (Inl (StatusNotFound ''cluster'')) (Inr ()) None None"
        "StatusNotFound ''cluster''" exObserver "exExternal True" "[]"
        "Some (fmupd ''servingInfo'' (JString ''x'') fmempty)"]
  by (simp add: exListers_def exObserver_def)

subsection \<open>C7: the platform names\<close>

text \<open>
  Claim C7. \<^verbatim>\<open>GetPlatformName\<close> returns \<open>aws\<close>, \<open>azure\<close>, \<open>vsphere\<close>, \<open>gce\<close>
  and \<open>openstack\<close> for the five platforms with an in-tree provider and the empty string for
  every other platform type; it leaves the recorder as it was, except for the empty and the
  unrecognized platform type, where it appends one warning event.
\<close>

theorem GetPlatformName_table:
  "GetPlatformName AWSPlatformType r = (''aws'', r)
   \<and> GetPlatformName AzurePlatformType r = (''azure'', r)
   \<and> GetPlatformName VSpherePlatformType r = (''vsphere'', r)
   \<and> GetPlatformName GCPPlatformType r = (''gce'', r)
   \<and> GetPlatformName OpenStackPlatformType r = (''openstack'', r)
   \<and> GetPlatformName BareMetalPlatformType r = ('''', r)
   \<and> GetPlatformName LibvirtPlatformType r = ('''', r)
   \<and> GetPlatformName IBMCloudPlatformType r = ('''', r)
   \<and> GetPlatformName NonePlatformType r = ('''', r)
   \<and> GetPlatformName OvirtPlatformType r = ('''', r)
   \<and> GetPlatformName KubevirtPlatformType r = ('''', r)
   \<and> GetPlatformName AlibabaCloudPlatformType r = ('''', r)
   \<and> GetPlatformName EmptyPlatformType r =
        ('''', r @ [Warningf ''ObserveCloudProvidersFailed''
           ''Required status.platform field is not set in infrastructures.%s/cluster''
           [ArgString GroupName]])
   \<and> GetPlatformName UnrecognizedPlatformType r =
        ('''', r @ [Warningf ''ObserveCloudProvidersFailed''
           (''No recognized cloud provider platform found in infrastructures.'' @ GroupName
              @ ''/cluster.status.platform'') []])"
  by simp

subsection \<open>C8: the managed config-map\<close>

text \<open>
  Claim C8 says that for every platform type an existing managed config-map is the sync
  source. This fails for a platform outside the allow-list: on a cluster without platform
  the sync is requested from the empty location although the managed config-map exists.
\<close>

theorem managed_config_map_not_synced_for_other_platform:
  "ConfigMapLister_Get (exCluster NonePlatformType None)
       machineSpecifiedConfigNamespace machineSpecifiedConfig = None
   \<and> ObserveCloudProviderNames exObserver (exExternal False)
        (InfraListers (exCluster NonePlatformType None)) [] exPrior
       = Returned \<lparr>ret = Some fmempty, errs = [], recorded = [],
           synced = [(\<lparr>Namespace = ''openshift-kube-apiserver'', Name = ''cloud-config''\<rparr>,
                      \<lparr>Namespace = '''', Name = ''''\<rparr>)],
           exit = NoSourceConfigMap\<rparr>
   \<and> \<lparr>Namespace = '''', Name = ''''\<rparr>
       \<noteq> \<lparr>Namespace = machineSpecifiedConfigNamespace, Name = machineSpecifiedConfig\<rparr>"
  by (simp add: observe_eval)

text \<open>
  Claim C8, amended. For every infrastructure spec and every platform type that resolves to a
  provider of the allow-list: if the managed config-map \<open>kube-cloud-config\<close> exists in
  \<open>openshift-config-managed\<close>, the sync is requested from it and the config file written is
  the one of key \<open>cloud.conf\<close>; if its lookup answers "not found", the sync is requested from
  the config-map that the infrastructure spec names in \<open>openshift-config\<close> (from the empty
  location when the spec names none) and the config file written is the one of the key of
  the spec.
\<close>

theorem managed_config_map_preferred:
  assumes "InfrastructureLister_Get l ''cluster'' = Inr infra"
    and "IsCloudProviderExternal ext l (Status_PlatformStatus infra) = Inr external"
    and "cloudProviderNamePath c \<noteq> []" "cloudProviderConfigPath c \<noteq> []"
  shows "\<exists>ob. ObserveCloudProviderNames c ext (InfraListers l) r0 existingConfig = Returned ob
     \<and> (ConfigMapLister_Get l machineSpecifiedConfigNamespace machineSpecifiedConfig = None \<longrightarrow>
          synced ob = [(\<lparr>Namespace = targetNamespaceName c, Name = ''cloud-config''\<rparr>,
                        if fst (GetPlatformName (Status_Platform infra) r0) \<in> validCloudProviders
                        then \<lparr>Namespace = machineSpecifiedConfigNamespace,
                                Name = machineSpecifiedConfig\<rparr>
                        else \<lparr>Namespace = '''', Name = ''''\<rparr>)]
          \<and> (exit ob = Observed \<longrightarrow>
                NestedStringSlice (ret ob) (cloudProviderConfigPath c)
                  = ([cloudProviderConfFilePath @ ''cloud.conf''], True, None)))
     \<and> (\<forall>err. ConfigMapLister_Get l machineSpecifiedConfigNamespace machineSpecifiedConfig
                 = Some err \<longrightarrow> IsNotFound err \<longrightarrow>
          synced ob = [(\<lparr>Namespace = targetNamespaceName c, Name = ''cloud-config''\<rparr>,
                        if fst (GetPlatformName (Status_Platform infra) r0) \<in> validCloudProviders
                           \<and> Spec_CloudConfig_Name infra \<noteq> ''''
                        then \<lparr>Namespace = configNamespace,
                                Name = Spec_CloudConfig_Name infra\<rparr>
                        else \<lparr>Namespace = '''', Name = ''''\<rparr>)]
          \<and> (exit ob = Observed \<longrightarrow>
                NestedStringSlice (ret ob) (cloudProviderConfigPath c)
                  = ([cloudProviderConfFilePath @ Spec_CloudConfig_Key infra], True, None)))"
proof -
  let ?np = "cloudProviderNamePath c" and ?cp = "cloudProviderConfigPath c"
  from Observe_total [OF assms(3,4)] obtain ob where
    ob: "ObserveCloudProviderNames c ext (InfraListers l) r0 existingConfig = Returned ob" by blast
  from Observe_body [OF ob] obtain b :: observation where
    b: "observeBody c ext (InfraListers l) r0 existingConfig = Returned b"
       "Pruned (ret b) [?cp, ?np] = Returned (ret ob)"
       "ob = b\<lparr>ret := ret ob\<rparr>" by blast
  have same: "exit ob = exit b" "synced ob = synced b"
    by (subst b(3), simp)+
  have written: "NestedStringSlice (ret ob) ?cp = ([cloudProviderConfFilePath @ key], True, None)"
    if src: "sourceCloudConfig l infra = Inr (name, ns, key)" and obs: "exit b = Observed"
    for name ns key
  proof -
    from body_observed_file [OF b(1) obs assms(1) src] obtain oc where
      oc: "ret b = Some oc"
          "found (JMap oc) ?cp = Some (JSlice [JString (cloudProviderConfFilePath @ key)])"
      by blast
    from b(2) oc(1) have "Pruned (Some oc) [?cp, ?np] = Returned (ret ob)" by simp
    from Pruned_found [OF this] oc(2) obtain r where "ret ob = Some r"
      "found (JMap r) ?cp = Some (JSlice (map JString [cloudProviderConfFilePath @ key]))"
      by auto
    then show ?thesis
      using NestedStringSlice_found_strings [of "ret ob" ?cp "[cloudProviderConfFilePath @ key]"]
      by (simp add: entries_def)
  qed
  have managed: "sourceCloudConfig l infra
        = Inr (machineSpecifiedConfig, machineSpecifiedConfigNamespace, ''cloud.conf'')"
    if "ConfigMapLister_Get l machineSpecifiedConfigNamespace machineSpecifiedConfig = None"
    using that by (simp add: sourceCloudConfig_def)
  have default: "sourceCloudConfig l infra
        = Inr (Spec_CloudConfig_Name infra, configNamespace, Spec_CloudConfig_Key infra)"
    if "ConfigMapLister_Get l machineSpecifiedConfigNamespace machineSpecifiedConfig = Some err"
      "IsNotFound err" for err
    using that by (simp add: sourceCloudConfig_def)
  have nonempty: "machineSpecifiedConfig \<noteq> ''''" by (simp add: machineSpecifiedConfig_def)
  show ?thesis
    using ob same written [OF managed] written [OF default]
      body_synced [OF b(1) assms(1,2) managed]
      body_synced [OF b(1) assms(1,2) default] nonempty
    by auto
qed

text \<open>
  Claim C8, amended, on an AWS cluster whose managed config-map exists and on an Azure
  cluster without one.
\<close>

theorem managed_config_map_preferred_witness:
  "(InfrastructureLister_Get (exCluster AWSPlatformType None) ''cluster''
      = Inr (exInfrastructure AWSPlatformType ''cloud-provider-config'' ''config'')
    \<and> IsCloudProviderExternal (exExternal False) (exCluster AWSPlatformType None)
         (Status_PlatformStatus (exInfrastructure AWSPlatformType ''cloud-provider-config'' ''config''))
        = Inr False
    \<and> cloudProviderNamePath exObserver \<noteq> [] \<and> cloudProviderConfigPath exObserver \<noteq> []
    \<and> (\<exists>ob. ObserveCloudProviderNames exObserver (exExternal False)
           (InfraListers (exCluster AWSPlatformType None)) [] exPrior = Returned ob
         \<and> ConfigMapLister_Get (exCluster AWSPlatformType None)
              machineSpecifiedConfigNamespace machineSpecifiedConfig = None
         \<and> synced ob = [(\<lparr>Namespace = targetNamespaceName exObserver, Name = ''cloud-config''\<rparr>,
                \<lparr>Namespace = machineSpecifiedConfigNamespace, Name = machineSpecifiedConfig\<rparr>)]
         \<and> exit ob = Observed
         \<and> NestedStringSlice (ret ob) (cloudProviderConfigPath exObserver)
              = ([cloudProviderConfFilePath @ ''cloud.conf''], True, None)))
   \<and> (InfrastructureLister_Get
         (exCluster AzurePlatformType (Some (StatusNotFound ''kube-cloud-config''))) ''cluster''
      = Inr (exInfrastructure AzurePlatformType ''cloud-provider-config'' ''config'')
    \<and> IsCloudProviderExternal (exExternal False)
         (exCluster AzurePlatformType (Some (StatusNotFound ''kube-cloud-config'')))
         (Status_PlatformStatus (exInfrastructure AzurePlatformType ''cloud-provider-config'' ''config''))
        = Inr False
    \<and> (\<exists>ob. ObserveCloudProviderNames exObserver (exExternal False)
           (InfraListers (exCluster AzurePlatformType (Some (StatusNotFound ''kube-cloud-config''))))
           [] exPrior = Returned ob
         \<and> ConfigMapLister_Get
              (exCluster AzurePlatformType (Some (StatusNotFound ''kube-cloud-config'')))
              machineSpecifiedConfigNamespace machineSpecifiedConfig
             = Some (StatusNotFound ''kube-cloud-config'')
         \<and> IsNotFound (StatusNotFound ''kube-cloud-config'')
         \<and> synced ob = [(\<lparr>Namespace = targetNamespaceName exObserver, Name = ''cloud-config''\<rparr>,
                \<lparr>Namespace = configNamespace, Name = ''cloud-provider-config''\<rparr>)]
         \<and> exit ob = Observed
         \<and> NestedStringSlice (ret ob) (cloudProviderConfigPath exObserver)
              = ([cloudProviderConfFilePath @ ''config''], True, None)))"
  using managed_config_map_preferred [of "exCluster AWSPlatformType None"
      "exInfrastructure AWSPlatformType ''cloud-provider-config'' ''config''"
      "exExternal False" False exObserver "[]" exPrior]
    managed_config_map_preferred [of
      "exCluster AzurePlatformType (Some (StatusNotFound ''kube-cloud-config''))"
      "exInfrastructure AzurePlatformType ''cloud-provider-config'' ''config''"
      "exExternal False" False exObserver "[]" exPrior]
  by (simp add: observe_eval)

subsection \<open>C9: idempotence\<close>

text \<open>
  Claim C9. With the external resources unchanged, a second call that receives the
  configuration returned by the first call as its prior configuration returns the same
  configuration and records no "changed" event for the config file.
\<close>

theorem second_call_same_result:
  assumes "ObserveCloudProviderNames c ext L r0 existingConfig = Returned ob1"
  shows "\<exists>ob2. ObserveCloudProviderNames c ext L r1 (ret ob1) = Returned ob2
           \<and> ret ob2 = ret ob1
           \<and> changedEvents (recorded ob2) = changedEvents r1"
proof -
  let ?pths = "[cloudProviderConfigPath c, cloudProviderNamePath c]"
  from Observe_body [OF assms] obtain b1 :: observation where
    b1: "observeBody c ext L r0 existingConfig = Returned b1"
        "Pruned (ret b1) ?pths = Returned (ret ob1)" by blast
  from body_returns_independent [OF b1(1)] obtain b2 where
    b2: "observeBody c ext L r1 (ret ob1) = Returned b2" by blast
  from body_exit_independent [OF b1(1) b2] have ex: "exit b2 = exit b1" by simp
  have "Pruned (ret b2) ?pths = Returned (ret ob1) \<and> changedEvents (recorded b2) = changedEvents r1"
  proof (cases "exit b1 \<in> hardErrorExits")
    case True
    with ex observeBody_hard [OF b2] have "ret b2 = ret ob1" by simp
    moreover from True ex have "exit b2 \<noteq> Observed" by (auto simp: hardErrorExits_def)
    ultimately show ?thesis
      using Pruned_idem [OF b1(2)] body_hard_events [OF b2] by simp
  next
    case False
    from body_fresh_independent [OF b1(1) b2 False] have same: "ret b2 = ret b1" .
    show ?thesis
    proof (cases "exit b2 = Observed")
      case False
      with same b1(2) body_hard_events [OF b2] show ?thesis by simp
    next
      case True
      from body_observed [OF b2 True] obtain oc fl where
        oc: "ret b2 = Some oc"
            "found (JMap oc) (cloudProviderConfigPath c) = Some (JSlice [JString fl])"
            "fst (NestedStringSlice (ret ob1) (cloudProviderConfigPath c)) = [fl] \<Longrightarrow>
               changedEvents (recorded b2) = changedEvents r1" by blast
      from b1(2) same oc(1) have "Pruned (Some oc) ?pths = Returned (ret ob1)" by simp
      from Pruned_found [OF this] oc(2) obtain r where
        "ret ob1 = Some r"
        "found (JMap r) (cloudProviderConfigPath c) = Some (JSlice (map JString [fl]))"
        by auto
      then have "NestedStringSlice (ret ob1) (cloudProviderConfigPath c) = ([fl], True, None)"
        using NestedStringSlice_found_strings [of "ret ob1" "cloudProviderConfigPath c" "[fl]"]
        by (simp add: entries_def)
      with oc(3) same b1(2) show ?thesis by simp
    qed
  qed
  with b2 show ?thesis by (simp add: ObserveCloudProviderNames_def)
qed

text \<open>Claim C9 on an AWS cluster: the first call records the change, the second does not.\<close>

theorem second_call_same_result_witness:
  "ObserveCloudProviderNames exObserver (exExternal False)
     (InfraListers (exCluster AWSPlatformType (Some (StatusNotFound ''kube-cloud-config''))))
     [] exPrior
   = Returned \<lparr>ret = Some (fmupd ''apiServerArguments''
         (JMap (fmupd ''cloud-provider'' (JSlice [JString ''aws''])
            (fmupd ''cloud-config''
               (JSlice [JString (cloudProviderConfFilePath @ ''config'')]) fmempty)))
         fmempty),
       errs = [],
       recorded = [Eventf ''ObserveCloudProviderNamesChanges''
         ''CloudProvider config file changed to %s''
         [ArgString (cloudProviderConfFilePath @ ''config'')]],
       synced = [(\<lparr>Namespace = ''openshift-kube-apiserver'', Name = ''cloud-config''\<rparr>,
                  \<lparr>Namespace = configNamespace, Name = ''cloud-provider-config''\<rparr>)],
       exit = Observed\<rparr>
   \<and> (\<exists>ob2. ObserveCloudProviderNames exObserver (exExternal False)
          (InfraListers (exCluster AWSPlatformType (Some (StatusNotFound ''kube-cloud-config''))))
          []
          (Some (fmupd ''apiServerArguments''
             (JMap (fmupd ''cloud-provider'' (JSlice [JString ''aws''])
                (fmupd ''cloud-config''
                   (JSlice [JString (cloudProviderConfFilePath @ ''config'')]) fmempty)))
             fmempty)) = Returned ob2
        \<and> ret ob2 = Some (fmupd ''apiServerArguments''
             (JMap (fmupd ''cloud-provider'' (JSlice [JString ''aws''])
                (fmupd ''cloud-config''
                   (JSlice [JString (cloudProviderConfFilePath @ ''config'')]) fmempty)))
             fmempty)
        \<and> changedEvents (recorded ob2) = changedEvents [])"
  using second_call_same_result [of exObserver "exExternal False"
      "InfraListers (exCluster AWSPlatformType (Some (StatusNotFound ''kube-cloud-config'')))"
      "[]" exPrior
      "\<lparr>ret = Some (fmupd ''apiServerArguments''
         (JMap (fmupd ''cloud-provider'' (JSlice [JString ''aws''])
            (fmupd ''cloud-config''
               (JSlice [JString (cloudProviderConfFilePath @ ''config'')]) fmempty)))
         fmempty),
       errs = [],
       recorded = [Eventf ''ObserveCloudProviderNamesChanges''
         ''CloudProvider config file changed to %s''
         [ArgString (cloudProviderConfFilePath @ ''config'')]],
       synced = [(\<lparr>Namespace = ''openshift-kube-apiserver'', Name = ''cloud-config''\<rparr>,
                  \<lparr>Namespace = configNamespace, Name = ''cloud-provider-config''\<rparr>)],
       exit = Observed\<rparr>" "[]"]
  by (simp add: observe_eval changedEvents_def)

subsection \<open>C10: external marker and in-tree name\<close>

text \<open>
  Claim C10 says that for every input the returned configuration never holds both the marker
  \<open>external\<close> and an in-tree provider name at the name path. This fails on a hard error,
  which hands back what the prior configuration holds there.
\<close>

theorem prior_with_both_markers_is_returned:
  "ObserveCloudProviderNames exObserver (exExternal False)
     (InfraListers (exListers (Inl (StatusOther ''timeout'')) (Inr ()) None None)) []
     (Some (fmupd ''apiServerArguments''
        (JMap (fmupd ''cloud-provider'' (JSlice [JString ''external'', JString ''aws'']) fmempty))
        fmempty))
   = Returned \<lparr>ret = Some (fmupd ''apiServerArguments''
         (JMap (fmupd ''cloud-provider'' (JSlice [JString ''external'', JString ''aws'']) fmempty))
         fmempty),
       errs = [StatusOther ''timeout''], recorded = [], synced = [],
       exit = InfrastructureError\<rparr>
   \<and> externalAndInTree
       (Some (fmupd ''apiServerArguments''
          (JMap (fmupd ''cloud-provider'' (JSlice [JString ''external'', JString ''aws'']) fmempty))
          fmempty))
       (cloudProviderNamePath exObserver)"
  by (simp add: observe_eval externalAndInTree_def providerNames_def inTreeProviders_def)

text \<open>
  Claim C10, amended. For every input whose prior configuration does not hold both the marker
  \<open>external\<close> and an in-tree provider name at the name path, the returned configuration
  does not hold both either; the observer itself writes at most one of the two.
\<close>

theorem absent_marker_pair_preserved:
  assumes "cloudProviderNamePath c \<noteq> []" "cloudProviderConfigPath c \<noteq> []"
    and "\<not> externalAndInTree existingConfig (cloudProviderNamePath c)"
  shows "\<exists>ob. ObserveCloudProviderNames c ext (InfraListers l) r0 existingConfig = Returned ob
           \<and> \<not> externalAndInTree (ret ob) (cloudProviderNamePath c)"
proof -
  let ?pths = "[cloudProviderConfigPath c, cloudProviderNamePath c]"
  from Observe_total [OF assms(1,2)] obtain ob where
    ob: "ObserveCloudProviderNames c ext (InfraListers l) r0 existingConfig = Returned ob" by blast
  from Observe_body [OF ob] obtain b :: observation where
    b: "observeBody c ext (InfraListers l) r0 existingConfig = Returned b"
       "Pruned (ret b) ?pths = Returned (ret ob)" by blast
  have "\<not> externalAndInTree (ret ob) (cloudProviderNamePath c)"
  proof (cases "exit b \<in> hardErrorExits")
    case True
    with observeBody_hard [OF b(1)] have "ret b = existingConfig" by simp
    with Pruned_names [OF b(2)] assms(3) show ?thesis
      by (simp add: externalAndInTree_def)
  next
    case False
    from body_fresh_names [OF b(1) False assms(1)] obtain oc where
      oc: "ret b = Some oc" "singleSliceAt (cloudProviderNamePath c) oc" by blast
    from singleSliceAt_names [OF oc(2)] Pruned_names [OF b(2)] oc(1)
    have "length (providerNames (ret ob) (cloudProviderNamePath c)) \<le> 1" by simp
    then show ?thesis by (rule short_names_not_both)
  qed
  with ob show ?thesis by blast
qed

text \<open>Claim C10, amended, on an AWS cluster in external mode.\<close>

theorem absent_marker_pair_preserved_witness:
  "cloudProviderNamePath exObserver \<noteq> [] \<and> cloudProviderConfigPath exObserver \<noteq> []
   \<and> \<not> externalAndInTree exPrior (cloudProviderNamePath exObserver)
   \<and> (\<exists>ob. ObserveCloudProviderNames exObserver (exExternal True)
          (InfraListers (exCluster AWSPlatformType (Some (StatusNotFound ''kube-cloud-config''))))
          [] exPrior = Returned ob
        \<and> \<not> externalAndInTree (ret ob) (cloudProviderNamePath exObserver))"
  using absent_marker_pair_preserved [of exObserver exPrior "exExternal True"
      "exCluster AWSPlatformType (Some (StatusNotFound ''kube-cloud-config''))" "[]"]
  by (simp add: observe_eval externalAndInTree_def providerNames_def inTreeProviders_def)

end
